theory Spec2Isabelle
  imports Main "HOL-Library.Word"
begin

unbundle bit_operations_syntax

section \<open>The hook DLL of OPLauncher.Hook.Native (dllmain.cpp)\<close>

text \<open>
  The DLL patches two functions of a 32-bit x86 host process: a three-byte
  inline patch at \<open>Client::IsAlreadyRunning\<close> and a five-byte diverting jump with
  a trampoline at \<open>CLBlockAllocator::OpenDataFile\<close>. The model is a shallow
  embedding with explicit state passing: every C function takes the process
  state and returns its result with the new state.
\<close>

subsection \<open>Machine types and constants\<close>

type_synonym byte = "8 word"
type_synonym dword = "32 word"

definition CLIENT_ISALREADYRUNNING_ADDR :: dword where
  "CLIENT_ISALREADYRUNNING_ADDR = 0x004122A0"

definition CLBLOCKALLOCATOR_OPENDATAFILE_ADDR :: dword where
  "CLBLOCKALLOCATOR_OPENDATAFILE_ADDR = 0x00675920"

text \<open>\<open>PAGE_EXECUTE_READWRITE\<close> of the Windows headers.\<close>

definition PAGE_EXECUTE_READWRITE :: dword where
  "PAGE_EXECUTE_READWRITE = 0x40"

text \<open>The \<open>ul_reason_for_call\<close> values of the Windows headers.\<close>

definition DLL_PROCESS_DETACH :: dword where
  "DLL_PROCESS_DETACH = 0"

definition DLL_PROCESS_ATTACH :: dword where
  "DLL_PROCESS_ATTACH = 1"

subsection \<open>Process state\<close>

text \<open>
  The state holds the flat 32-bit address space of the host, the part of the
  operating system the DLL talks to, and the DLL's five globals.

  \<^item> \<open>mem\<close>: the byte at every address; \<open>writes\<close>: the log of the stores the
    DLL made into process memory, oldest first (address and bytes).
  \<^item> \<open>prot\<close>: the protection of every page (a page number is an address
    shifted right by 12); \<open>vp_ok a n\<close>: whether the operating system grants a
    protection change on the region of \<open>n\<close> bytes at \<open>a\<close>.
  \<^item> \<open>valloc\<close>: the addresses the next calls of \<open>VirtualAlloc\<close> return (0 or
    an exhausted list: the allocation fails); \<open>live\<close>: the blocks allocated
    and not yet released; \<open>bad_free\<close>: a release of a block that is not live
    has happened.
  \<^item> \<open>hook_fn\<close>: the address at which the loader placed \<open>OpenDataFile_Hook\<close>.
  \<^item> the globals \<open>g_mutexOriginalBytes\<close> (16 bytes), \<open>g_fileOriginalBytes\<close>
    (32 bytes), \<open>g_hooksInstalled\<close>, \<open>g_fileHookTrampoline\<close> and
    \<open>g_originalOpenDataFile\<close> (0 is \<open>NULL\<close>).
\<close>

record proc =
  mem :: "dword \<Rightarrow> byte"
  writes :: "(dword \<times> byte list) list"
  prot :: "dword \<Rightarrow> dword"
  vp_ok :: "dword \<Rightarrow> nat \<Rightarrow> bool"
  valloc :: "dword list"
  live :: "dword set"
  bad_free :: bool
  hook_fn :: dword
  g_mutexOriginalBytes :: "byte list"
  g_fileOriginalBytes :: "byte list"
  g_hooksInstalled :: bool
  g_fileHookTrampoline :: dword
  g_originalOpenDataFile :: dword

subsection \<open>Memory\<close>

text \<open>Reading \<open>n\<close> bytes at \<open>a\<close>; addresses wrap around at \<open>2 ^ 32\<close>.\<close>

definition read_bytes :: "(dword \<Rightarrow> byte) \<Rightarrow> dword \<Rightarrow> nat \<Rightarrow> byte list" where
  "read_bytes m a n = map (\<lambda>i. m (a + of_nat i)) [0..<n]"

text \<open>Storing the bytes \<open>bs\<close> at \<open>a\<close>: the address \<open>x\<close> is hit when its distance
  from \<open>a\<close> is below the length.\<close>

definition write_bytes :: "dword \<Rightarrow> byte list \<Rightarrow> (dword \<Rightarrow> byte) \<Rightarrow> dword \<Rightarrow> byte" where
  "write_bytes a bs m = (\<lambda>x. if unat (x - a) < length bs then bs ! unat (x - a) else m x)"

text \<open>A store of the DLL into process memory (\<open>memcpy\<close> to an address, or an
  assignment through a byte pointer), logged.\<close>

definition store :: "dword \<Rightarrow> byte list \<Rightarrow> proc \<Rightarrow> proc" where
  "store a bs s = s\<lparr>mem := write_bytes a bs (mem s), writes := writes s @ [(a, bs)]\<rparr>"

text \<open>The four bytes of a \<open>DWORD\<close> in memory (x86 is little-endian), and the
  value four bytes in memory stand for.\<close>

definition dword_bytes :: "dword \<Rightarrow> byte list" where
  "dword_bytes w = [ucast w, ucast (drop_bit 8 w), ucast (drop_bit 16 w), ucast (drop_bit 24 w)]"

fun bytes_dword :: "byte list \<Rightarrow> dword" where
  "bytes_dword [] = 0"
| "bytes_dword (b # bs) = ucast b OR push_bit 8 (bytes_dword bs)"

subsection \<open>The operating system calls\<close>

definition page_of :: "dword \<Rightarrow> dword" where
  "page_of a = drop_bit 12 a"

text \<open>
  \<open>VirtualProtect(a, n, newp, &old)\<close> is code of the operating system. Whether
  it grants a change on a region is the operating system's decision about
  that region, \<open>vp_ok a n\<close>: the same for the call that makes a target
  writable and for the call that restores it. When it refuses, nothing changes
  and the call returns \<open>FALSE\<close> (here \<open>None\<close>). Otherwise every page from the
  one of the first byte to the one of the last byte gets the protection
  \<open>newp\<close>, and the call returns \<open>TRUE\<close> with the previous protection of the
  first page in \<open>old\<close> (here \<open>Some old\<close>).
\<close>

definition VirtualProtect :: "dword \<Rightarrow> nat \<Rightarrow> dword \<Rightarrow> proc \<Rightarrow> dword option \<times> proc" where
  "VirtualProtect a n newp s =
     (if vp_ok s a n then
        (Some (prot s (page_of a)),
         s\<lparr>prot := (\<lambda>p. if page_of a \<le> p \<and> p \<le> page_of (a + of_nat n - 1)
                         then newp else prot s p)\<rparr>)
      else (None, s))"

text \<open>\<open>VirtualAlloc(NULL, 32, MEM_COMMIT | MEM_RESERVE, PAGE_EXECUTE_READWRITE)\<close>:
  the address of a new block, which becomes live, or \<open>NULL\<close>. The address is
  the operating system's choice (the head of \<open>valloc\<close>). The block is born
  writable and executable; \<open>prot\<close> only follows the pages \<open>VirtualProtect\<close> is
  called on.\<close>

definition VirtualAlloc :: "proc \<Rightarrow> dword \<times> proc" where
  "VirtualAlloc s =
     (case valloc s of
        [] \<Rightarrow> (0, s)
      | a # as \<Rightarrow>
          if a = 0 then (0, s\<lparr>valloc := as\<rparr>)
          else (a, s\<lparr>valloc := as, live := insert a (live s)\<rparr>))"

text \<open>\<open>VirtualFree(p, 0, MEM_RELEASE)\<close>: releases a live block; releasing
  anything else is recorded in \<open>bad_free\<close>.\<close>

definition VirtualFree :: "dword \<Rightarrow> proc \<Rightarrow> proc" where
  "VirtualFree p s =
     (if p \<in> live s then s\<lparr>live := live s - {p}\<rparr> else s\<lparr>bad_free := True\<rparr>)"

subsection \<open>Relative jump offsets\<close>

text \<open>The two offset computations of \<open>InstallFileHook\<close>, in \<open>DWORD\<close>
  arithmetic (wrapping at \<open>2 ^ 32\<close>).\<close>

definition jumpOffset :: "dword \<Rightarrow> dword \<Rightarrow> dword" where
  "jumpOffset hookAddr trampolineJump = (hookAddr + 5) - (trampolineJump + 5)"

definition hookOffset :: "dword \<Rightarrow> dword \<Rightarrow> dword" where
  "hookOffset hook hookAddr = hook - (hookAddr + 5)"

text \<open>The formula of the specification, written from its words:
  \<open>relative_offset = destination_address - (jump_instruction_address +
  jump_instruction_length)\<close>.\<close>

definition spec_relative_offset :: "dword \<Rightarrow> dword \<Rightarrow> dword \<Rightarrow> dword" where
  "spec_relative_offset destination_address jump_instruction_address jump_instruction_length =
     destination_address - (jump_instruction_address + jump_instruction_length)"

subsection \<open>Installing the hooks\<close>

definition InstallMutexHook :: "proc \<Rightarrow> bool \<times> proc" where
  "InstallMutexHook s =
     (let hookAddr = CLIENT_ISALREADYRUNNING_ADDR in
      case VirtualProtect hookAddr 16 PAGE_EXECUTE_READWRITE s of
        (None, s1) \<Rightarrow> (False, s1)
      | (Some oldProtect, s1) \<Rightarrow>
          let s2 = s1\<lparr>g_mutexOriginalBytes := read_bytes (mem s1) hookAddr 16\<rparr>;
              patchBytes = [0x31, 0xC0, 0xC3];
              s3 = store hookAddr patchBytes s2;
              s4 = snd (VirtualProtect hookAddr 16 oldProtect s3)
          in (True, s4))"

definition InstallFileHook :: "proc \<Rightarrow> bool \<times> proc" where
  "InstallFileHook s =
     (let hookAddr = CLBLOCKALLOCATOR_OPENDATAFILE_ADDR;
          (p, s0) = VirtualAlloc s;
          s1 = s0\<lparr>g_fileHookTrampoline := p\<rparr>
      in if g_fileHookTrampoline s1 = 0 then (False, s1)
         else
           case VirtualProtect hookAddr 32 PAGE_EXECUTE_READWRITE s1 of
             (None, s2) \<Rightarrow>
               let s3 = VirtualFree (g_fileHookTrampoline s2) s2;
                   s4 = s3\<lparr>g_fileHookTrampoline := 0\<rparr>
               in (False, s4)
           | (Some oldProtect, s2) \<Rightarrow>
               let s3 = s2\<lparr>g_fileOriginalBytes := read_bytes (mem s2) hookAddr 32\<rparr>;
                   s4 = store (g_fileHookTrampoline s3) (read_bytes (mem s3) hookAddr 5) s3;
                   trampolineJump = g_fileHookTrampoline s4 + 5;
                   s5 = store trampolineJump [0xE9] s4;
                   s6 = store (trampolineJump + 1)
                          (dword_bytes (jumpOffset hookAddr trampolineJump)) s5;
                   s7 = s6\<lparr>g_originalOpenDataFile := g_fileHookTrampoline s6\<rparr>;
                   jumpToHook = 0xE9 # dword_bytes (hookOffset (hook_fn s7) hookAddr);
                   s8 = store hookAddr jumpToHook s7;
                   s9 = snd (VirtualProtect hookAddr 32 oldProtect s8)
               in (True, s9))"

definition InstallAllHooks :: "proc \<Rightarrow> bool \<times> proc" where
  "InstallAllHooks s =
     (case InstallMutexHook s of
        (False, s1) \<Rightarrow> (False, s1)
      | (True, s1) \<Rightarrow>
          (case InstallFileHook s1 of
             (False, s2) \<Rightarrow> (False, s2)
           | (True, s2) \<Rightarrow> (True, s2\<lparr>g_hooksInstalled := True\<rparr>)))"

subsection \<open>Removing the hooks\<close>

definition RemoveAllHooks :: "proc \<Rightarrow> proc" where
  "RemoveAllHooks s =
     (if \<not> g_hooksInstalled s then s
      else
        let mutexAddr = CLIENT_ISALREADYRUNNING_ADDR;
            s2 = (case VirtualProtect mutexAddr 16 PAGE_EXECUTE_READWRITE s of
                    (None, s1) \<Rightarrow> s1
                  | (Some oldProtect, s1) \<Rightarrow>
                      snd (VirtualProtect mutexAddr 16 oldProtect
                             (store mutexAddr (take 16 (g_mutexOriginalBytes s1)) s1)));
            fileAddr = CLBLOCKALLOCATOR_OPENDATAFILE_ADDR;
            s4 = (case VirtualProtect fileAddr 32 PAGE_EXECUTE_READWRITE s2 of
                    (None, s3) \<Rightarrow> s3
                  | (Some oldProtect, s3) \<Rightarrow>
                      snd (VirtualProtect fileAddr 32 oldProtect
                             (store fileAddr (take 32 (g_fileOriginalBytes s3)) s3)));
            s5 = (if g_fileHookTrampoline s4 \<noteq> 0
                  then (VirtualFree (g_fileHookTrampoline s4) s4)\<lparr>g_fileHookTrampoline := 0\<rparr>
                  else s4)
        in s5\<lparr>g_hooksInstalled := False\<rparr>)"

subsection \<open>The entry points\<close>

text \<open>\<open>DllMain\<close>: on attach only \<open>DisableThreadLibraryCalls\<close> is called, which
  touches nothing of this state; on detach the hooks are removed. It returns
  \<open>TRUE\<close> always.\<close>

definition DllMain :: "dword \<Rightarrow> proc \<Rightarrow> bool \<times> proc" where
  "DllMain ul_reason_for_call s =
     (if ul_reason_for_call = DLL_PROCESS_ATTACH then (True, s)
      else if ul_reason_for_call = DLL_PROCESS_DETACH then (True, RemoveAllHooks s)
      else (True, s))"

definition HookStartup :: "proc \<Rightarrow> int \<times> proc" where
  "HookStartup s =
     (case InstallAllHooks s of
        (True, s1) \<Rightarrow> (1, s1)
      | (False, s1) \<Rightarrow> (0, s1))"

subsection \<open>Initial state and sample processes\<close>

text \<open>The state right after the DLL is loaded into a host: the static
  initialisers of the five globals, nothing stored, nothing allocated.\<close>

definition loaded ::
  "(dword \<Rightarrow> byte) \<Rightarrow> (dword \<Rightarrow> dword) \<Rightarrow> (dword \<Rightarrow> nat \<Rightarrow> bool) \<Rightarrow> dword list \<Rightarrow> dword \<Rightarrow> proc" where
  "loaded m pr ok al hk =
     \<lparr>mem = m, writes = [], prot = pr, vp_ok = ok, valloc = al, live = {},
      bad_free = False, hook_fn = hk,
      g_mutexOriginalBytes = replicate 16 0, g_fileOriginalBytes = replicate 32 0,
      g_hooksInstalled = False, g_fileHookTrampoline = 0, g_originalOpenDataFile = 0\<rparr>"

text \<open>A sample host image: every byte is the low byte of its address, but
  \<open>Client::IsAlreadyRunning\<close> starts with \<open>push ebp; mov ebp, esp\<close>.\<close>

definition host_mem :: "dword \<Rightarrow> byte" where
  "host_mem = write_bytes CLIENT_ISALREADYRUNNING_ADDR [0x55, 0x8B, 0xEC] (\<lambda>a. ucast a)"

text \<open>A host that grants everything, with the hook function below both
  targets, and one that refuses the protection change on
  \<open>CLBlockAllocator::OpenDataFile\<close> only.\<close>

definition host_ok :: proc where
  "host_ok = loaded host_mem (\<lambda>p. 0x20) (\<lambda>a n. True) [0x02000000] 0x00120000"

definition host_denied :: proc where
  "host_denied =
     loaded host_mem (\<lambda>p. 0x20) (\<lambda>a n. a = CLIENT_ISALREADYRUNNING_ADDR) [0x02000000] 0x00120000"

text \<open>A host that refuses every protection change.\<close>

definition host_locked :: proc where
  "host_locked = loaded host_mem (\<lambda>p. 0x20) (\<lambda>a n. False) [0x02000000] 0x00120000"

text \<open>The target addresses \<open>RemoveAllHooks\<close> stores to, in the order of the
  stores.\<close>

definition revert_order :: "proc \<Rightarrow> dword list" where
  "revert_order s = map fst (drop (length (writes s)) (writes (RemoveAllHooks s)))"

section \<open>Memory and address arithmetic\<close>

lemma length_read_bytes: "length (read_bytes m a n) = n"
  by (simp add: read_bytes_def)

lemma read_write_prefix:
  assumes "length bs \<le> n" and "n \<le> 2 ^ 32"
  shows "read_bytes (write_bytes a bs m) a n = bs @ drop (length bs) (read_bytes m a n)"
proof (rule nth_equalityI)
  show "length (read_bytes (write_bytes a bs m) a n) =
        length (bs @ drop (length bs) (read_bytes m a n))"
    using assms by (simp add: read_bytes_def)
next
  fix i
  assume "i < length (read_bytes (write_bytes a bs m) a n)"
  then have i: "i < n"
    by (simp add: read_bytes_def)
  with assms have "unat (a + of_nat i - a) = i"
    by (simp add: unat_of_nat)
  then show "read_bytes (write_bytes a bs m) a n ! i =
             (bs @ drop (length bs) (read_bytes m a n)) ! i"
    using i assms by (auto simp: read_bytes_def write_bytes_def nth_append)
qed

lemma read_write_same:
  "length bs = n \<Longrightarrow> n \<le> 2 ^ 32 \<Longrightarrow> read_bytes (write_bytes a bs m) a n = bs"
  using read_write_prefix [of bs n a m] by (simp add: read_bytes_def)

lemma read_write_other:
  assumes "\<And>i. i < n \<Longrightarrow> length bs \<le> unat (b + of_nat i - a)"
  shows "read_bytes (write_bytes a bs m) b n = read_bytes m b n"
  using assms by (fastforce simp: read_bytes_def write_bytes_def)

text \<open>Two blocks that are far apart on the address circle: no byte of the
  block at \<open>t\<close> lies within \<open>n\<close> bytes after \<open>h\<close>.\<close>

lemma far_apart:
  fixes t h :: dword
  assumes "n \<le> unat (t - h)" and "k \<le> unat (h - t)" and "i < k"
  shows "n \<le> unat (t + of_nat i - h)"
proof -
  define d where "d = t - h"
  have hd: "h - t = - d"
    by (simp add: d_def)
  have e: "t + of_nat i - h = d + of_nat i"
    by (simp add: d_def)
  have "unat (- d) = (if unat d = 0 then 0 else 2 ^ 32 - unat d)"
    using unat_sub_if' [of 0 d] by (auto simp: unat_eq_0)
  with assms(2,3) hd have "unat d + i < 2 ^ 32"
    by (auto split: if_splits)
  moreover from this have "unat (of_nat i :: dword) = i"
    by (simp add: unat_of_nat)
  ultimately have "unat (d + of_nat i) = unat d + i"
    by (simp add: unat_add_lem [THEN iffD1])
  with assms(1) show ?thesis
    by (simp add: e d_def)
qed

lemma file_window_clear_of_mutex:
  "i < 32 \<Longrightarrow>
   16 \<le> unat (CLBLOCKALLOCATOR_OPENDATAFILE_ADDR + of_nat i - CLIENT_ISALREADYRUNNING_ADDR)"
  by (rule far_apart [where k = 32])
     (simp_all add: CLBLOCKALLOCATOR_OPENDATAFILE_ADDR_def CLIENT_ISALREADYRUNNING_ADDR_def)

lemma mutex_window_clear_of_file:
  "i < 16 \<Longrightarrow>
   32 \<le> unat (CLIENT_ISALREADYRUNNING_ADDR + of_nat i - CLBLOCKALLOCATOR_OPENDATAFILE_ADDR)"
  by (rule far_apart [where k = 16])
     (simp_all add: CLBLOCKALLOCATOR_OPENDATAFILE_ADDR_def CLIENT_ISALREADYRUNNING_ADDR_def)

lemma bytes_dword_dword_bytes: "bytes_dword (dword_bytes w) = w"
proof (rule bit_word_eqI)
  fix n
  assume "n < LENGTH(32)"
  then consider "n < 8" | "8 \<le> n" "n < 16" | "16 \<le> n" "n < 24" | "24 \<le> n" "n < 32"
    by fastforce
  then show "bit (bytes_dword (dword_bytes w)) n = bit w n"
  proof cases
    case 1
    then show ?thesis by (simp add: dword_bytes_def bit_simps)
  next
    case 2
    then show ?thesis by (auto simp add: dword_bytes_def bit_simps)
  next
    case 3
    then show ?thesis by (auto simp add: dword_bytes_def bit_simps)
  next
    case 4
    then show ?thesis by (auto simp add: dword_bytes_def bit_simps)
  qed
qed

section \<open>What each function does to the state\<close>

text \<open>Both target windows lie inside one page each, so a protection change
  on a window touches exactly that page.\<close>

lemma one_page: "(\<lambda>p. if (q::dword) \<le> p \<and> p \<le> q then v else f p) = f(q := v)"
  by (auto simp: fun_eq_iff)

lemma page_mutex:
  "page_of (CLIENT_ISALREADYRUNNING_ADDR + of_nat 16 - 1) = page_of CLIENT_ISALREADYRUNNING_ADDR"
  by (simp add: page_of_def CLIENT_ISALREADYRUNNING_ADDR_def)

lemma page_file:
  "page_of (CLBLOCKALLOCATOR_OPENDATAFILE_ADDR + of_nat 32 - 1) =
   page_of CLBLOCKALLOCATOR_OPENDATAFILE_ADDR"
  by (simp add: page_of_def CLBLOCKALLOCATOR_OPENDATAFILE_ADDR_def)

lemma VirtualProtect_mutex:
  "VirtualProtect CLIENT_ISALREADYRUNNING_ADDR 16 newp s =
     (if vp_ok s CLIENT_ISALREADYRUNNING_ADDR 16
      then (Some (prot s (page_of CLIENT_ISALREADYRUNNING_ADDR)),
            s\<lparr>prot := (prot s)(page_of CLIENT_ISALREADYRUNNING_ADDR := newp)\<rparr>)
      else (None, s))"
  using page_mutex by (simp add: VirtualProtect_def one_page)

lemma VirtualProtect_file:
  "VirtualProtect CLBLOCKALLOCATOR_OPENDATAFILE_ADDR 32 newp s =
     (if vp_ok s CLBLOCKALLOCATOR_OPENDATAFILE_ADDR 32
      then (Some (prot s (page_of CLBLOCKALLOCATOR_OPENDATAFILE_ADDR)),
            s\<lparr>prot := (prot s)(page_of CLBLOCKALLOCATOR_OPENDATAFILE_ADDR := newp)\<rparr>)
      else (None, s))"
  using page_file by (simp add: VirtualProtect_def one_page)

lemma InstallMutexHook_eq:
  "InstallMutexHook s =
     (if vp_ok s CLIENT_ISALREADYRUNNING_ADDR 16
      then (True,
            s\<lparr>g_mutexOriginalBytes := read_bytes (mem s) CLIENT_ISALREADYRUNNING_ADDR 16,
              mem := write_bytes CLIENT_ISALREADYRUNNING_ADDR [0x31, 0xC0, 0xC3] (mem s),
              writes := writes s @ [(CLIENT_ISALREADYRUNNING_ADDR, [0x31, 0xC0, 0xC3])]\<rparr>)
      else (False, s))"
  by (simp add: InstallMutexHook_def VirtualProtect_mutex store_def Let_def)

lemma InstallFileHook_alloc_fails:
  "valloc s = [] \<Longrightarrow> InstallFileHook s = (False, s\<lparr>g_fileHookTrampoline := 0\<rparr>)"
  by (simp add: InstallFileHook_def VirtualAlloc_def)

lemma InstallFileHook_alloc_null:
  "valloc s = 0 # ts \<Longrightarrow>
   InstallFileHook s = (False, s\<lparr>valloc := ts, g_fileHookTrampoline := 0\<rparr>)"
  by (simp add: InstallFileHook_def VirtualAlloc_def)

lemma InstallFileHook_vp_fails:
  "valloc s = t # ts \<Longrightarrow> t \<noteq> 0 \<Longrightarrow> \<not> vp_ok s CLBLOCKALLOCATOR_OPENDATAFILE_ADDR 32 \<Longrightarrow>
   InstallFileHook s =
     (False, s\<lparr>valloc := ts, live := live s - {t}, g_fileHookTrampoline := 0\<rparr>)"
  by (simp add: InstallFileHook_def VirtualAlloc_def VirtualProtect_file VirtualFree_def)

lemma InstallFileHook_ok:
  "valloc s = t # ts \<Longrightarrow> t \<noteq> 0 \<Longrightarrow> vp_ok s CLBLOCKALLOCATOR_OPENDATAFILE_ADDR 32 \<Longrightarrow>
   InstallFileHook s =
     (let h = CLBLOCKALLOCATOR_OPENDATAFILE_ADDR in
      (True,
       s\<lparr>valloc := ts, live := insert t (live s),
         g_fileHookTrampoline := t,
         g_fileOriginalBytes := read_bytes (mem s) h 32,
         g_originalOpenDataFile := t,
         mem := write_bytes h (0xE9 # dword_bytes (hookOffset (hook_fn s) h))
                  (write_bytes (t + 6) (dword_bytes (jumpOffset h (t + 5)))
                    (write_bytes (t + 5) [0xE9]
                      (write_bytes t (read_bytes (mem s) h 5) (mem s)))),
         writes := writes s @
             [(t, read_bytes (mem s) h 5), (t + 5, [0xE9]),
              (t + 6, dword_bytes (jumpOffset h (t + 5))),
              (h, 0xE9 # dword_bytes (hookOffset (hook_fn s) h))]\<rparr>))"
  by (simp add: InstallFileHook_def VirtualAlloc_def VirtualProtect_file store_def add.commute)
     (simp add: Let_def)

lemma InstallFileHook_succeeds:
  "fst (InstallFileHook s) =
     (\<exists>t ts. valloc s = t # ts \<and> t \<noteq> 0 \<and> vp_ok s CLBLOCKALLOCATOR_OPENDATAFILE_ADDR 32)"
proof (cases "valloc s")
  case Nil
  then show ?thesis
    by (simp add: InstallFileHook_alloc_fails)
next
  case (Cons t ts)
  then show ?thesis
    by (cases "t = 0"; cases "vp_ok s CLBLOCKALLOCATOR_OPENDATAFILE_ADDR 32")
       (simp_all add: InstallFileHook_alloc_null InstallFileHook_vp_fails InstallFileHook_ok Let_def)
qed

lemma revert_mutex:
  "(case VirtualProtect CLIENT_ISALREADYRUNNING_ADDR 16 PAGE_EXECUTE_READWRITE s of
      (None, s1) \<Rightarrow> s1
    | (Some oldProtect, s1) \<Rightarrow>
        snd (VirtualProtect CLIENT_ISALREADYRUNNING_ADDR 16 oldProtect
               (store CLIENT_ISALREADYRUNNING_ADDR (take 16 (g_mutexOriginalBytes s1)) s1))) =
   (if vp_ok s CLIENT_ISALREADYRUNNING_ADDR 16
    then store CLIENT_ISALREADYRUNNING_ADDR (take 16 (g_mutexOriginalBytes s)) s
    else s)"
  by (simp add: VirtualProtect_mutex store_def)

lemma revert_file:
  "(case VirtualProtect CLBLOCKALLOCATOR_OPENDATAFILE_ADDR 32 PAGE_EXECUTE_READWRITE s of
      (None, s1) \<Rightarrow> s1
    | (Some oldProtect, s1) \<Rightarrow>
        snd (VirtualProtect CLBLOCKALLOCATOR_OPENDATAFILE_ADDR 32 oldProtect
               (store CLBLOCKALLOCATOR_OPENDATAFILE_ADDR (take 32 (g_fileOriginalBytes s1)) s1))) =
   (if vp_ok s CLBLOCKALLOCATOR_OPENDATAFILE_ADDR 32
    then store CLBLOCKALLOCATOR_OPENDATAFILE_ADDR (take 32 (g_fileOriginalBytes s)) s
    else s)"
  by (simp add: VirtualProtect_file store_def)

lemma RemoveAllHooks_eq:
  "RemoveAllHooks s =
     (if \<not> g_hooksInstalled s then s
      else
        let s2 = (if vp_ok s CLIENT_ISALREADYRUNNING_ADDR 16
                  then store CLIENT_ISALREADYRUNNING_ADDR (take 16 (g_mutexOriginalBytes s)) s
                  else s);
            s4 = (if vp_ok s CLBLOCKALLOCATOR_OPENDATAFILE_ADDR 32
                  then store CLBLOCKALLOCATOR_OPENDATAFILE_ADDR
                         (take 32 (g_fileOriginalBytes s)) s2
                  else s2);
            s5 = (if g_fileHookTrampoline s \<noteq> 0
                  then (VirtualFree (g_fileHookTrampoline s) s4)\<lparr>g_fileHookTrampoline := 0\<rparr>
                  else s4)
        in s5\<lparr>g_hooksInstalled := False\<rparr>)"
  unfolding RemoveAllHooks_def Let_def revert_mutex revert_file
  by (cases "vp_ok s CLIENT_ISALREADYRUNNING_ADDR 16";
      cases "vp_ok s CLBLOCKALLOCATOR_OPENDATAFILE_ADDR 32")
     (simp_all add: store_def)

lemma InstallMutexHook_succeeds:
  "fst (InstallMutexHook s) = vp_ok s CLIENT_ISALREADYRUNNING_ADDR 16"
  by (simp add: InstallMutexHook_eq)

lemma InstallAllHooks_succeeds:
  "fst (InstallAllHooks s) =
     (fst (InstallMutexHook s) \<and> fst (InstallFileHook (snd (InstallMutexHook s))))"
  by (simp add: InstallAllHooks_def split: prod.splits bool.splits)

lemma InstallAllHooks_state:
  "snd (InstallAllHooks s) =
     (if \<not> fst (InstallMutexHook s) then snd (InstallMutexHook s)
      else if \<not> fst (InstallFileHook (snd (InstallMutexHook s)))
      then snd (InstallFileHook (snd (InstallMutexHook s)))
      else (snd (InstallFileHook (snd (InstallMutexHook s))))\<lparr>g_hooksInstalled := True\<rparr>)"
  by (simp add: InstallAllHooks_def split: prod.splits bool.splits)

lemma InstallMutexHook_flag:
  "g_hooksInstalled (snd (InstallMutexHook s)) = g_hooksInstalled s"
  by (simp add: InstallMutexHook_eq)

lemma InstallFileHook_flag:
  "g_hooksInstalled (snd (InstallFileHook s)) = g_hooksInstalled s"
proof (cases "valloc s")
  case Nil
  then show ?thesis
    by (simp add: InstallFileHook_alloc_fails)
next
  case (Cons t ts)
  then show ?thesis
    by (cases "t = 0"; cases "vp_ok s CLBLOCKALLOCATOR_OPENDATAFILE_ADDR 32")
       (simp_all add: InstallFileHook_alloc_null InstallFileHook_vp_fails InstallFileHook_ok Let_def)
qed

lemma failed_install_flag:
  "\<not> fst (InstallAllHooks s) \<Longrightarrow>
   g_hooksInstalled (snd (InstallAllHooks s)) = g_hooksInstalled s"
  by (simp add: InstallAllHooks_succeeds InstallAllHooks_state InstallMutexHook_flag
      InstallFileHook_flag)

lemma RemoveAllHooks_idle: "\<not> g_hooksInstalled s \<Longrightarrow> RemoveAllHooks s = s"
  by (simp add: RemoveAllHooks_def)

lemma host_denied_fails: "\<not> fst (InstallAllHooks host_denied)"
  by (simp add: InstallAllHooks_succeeds InstallMutexHook_eq InstallFileHook_succeeds
      host_denied_def loaded_def CLIENT_ISALREADYRUNNING_ADDR_def
      CLBLOCKALLOCATOR_OPENDATAFILE_ADDR_def)

lemma InstallMutexHook_prot: "prot (snd (InstallMutexHook s)) = prot s"
  by (simp add: InstallMutexHook_eq)

lemma InstallMutexHook_vp_ok: "vp_ok (snd (InstallMutexHook s)) = vp_ok s"
  by (simp add: InstallMutexHook_eq)

lemma InstallFileHook_prot: "prot (snd (InstallFileHook s)) = prot s"
proof (cases "valloc s")
  case Nil
  then show ?thesis
    by (simp add: InstallFileHook_alloc_fails)
next
  case (Cons t ts)
  then show ?thesis
    by (cases "t = 0"; cases "vp_ok s CLBLOCKALLOCATOR_OPENDATAFILE_ADDR 32")
       (simp_all add: InstallFileHook_alloc_null InstallFileHook_vp_fails InstallFileHook_ok Let_def)
qed

lemma InstallFileHook_refused:
  assumes "\<not> vp_ok s CLBLOCKALLOCATOR_OPENDATAFILE_ADDR 32"
  shows "\<not> fst (InstallFileHook s) \<and> mem (snd (InstallFileHook s)) = mem s \<and>
         writes (snd (InstallFileHook s)) = writes s"
proof (cases "valloc s")
  case Nil
  then show ?thesis
    by (simp add: InstallFileHook_alloc_fails)
next
  case (Cons t ts)
  with assms show ?thesis
    by (cases "t = 0") (simp_all add: InstallFileHook_alloc_null InstallFileHook_vp_fails)
qed

lemma InstallAllHooks_prot: "prot (snd (InstallAllHooks s)) = prot s"
  by (simp add: InstallAllHooks_state InstallMutexHook_prot InstallFileHook_prot)

lemma HookStartup_state: "snd (HookStartup s) = snd (InstallAllHooks s)"
  by (simp add: HookStartup_def split: prod.splits bool.splits)

lemma VirtualFree_prot: "prot (VirtualFree p s) = prot s"
  by (simp add: VirtualFree_def)

lemma RemoveAllHooks_prot: "prot (RemoveAllHooks s) = prot s"
  by (simp add: RemoveAllHooks_eq Let_def store_def VirtualFree_prot)

lemma targets_differ: "CLIENT_ISALREADYRUNNING_ADDR \<noteq> CLBLOCKALLOCATOR_OPENDATAFILE_ADDR"
  by (simp add: CLIENT_ISALREADYRUNNING_ADDR_def CLBLOCKALLOCATOR_OPENDATAFILE_ADDR_def)

lemma VirtualFree_writes: "writes (VirtualFree p s) = writes s"
  by (simp add: VirtualFree_def)

lemma VirtualFree_mem: "mem (VirtualFree p s) = mem s"
  by (simp add: VirtualFree_def)

lemma RemoveAllHooks_writes:
  "g_hooksInstalled s \<Longrightarrow>
   writes (RemoveAllHooks s) =
     writes s @
     (if vp_ok s CLIENT_ISALREADYRUNNING_ADDR 16
      then [(CLIENT_ISALREADYRUNNING_ADDR, take 16 (g_mutexOriginalBytes s))] else []) @
     (if vp_ok s CLBLOCKALLOCATOR_OPENDATAFILE_ADDR 32
      then [(CLBLOCKALLOCATOR_OPENDATAFILE_ADDR, take 32 (g_fileOriginalBytes s))] else [])"
  by (simp add: RemoveAllHooks_eq Let_def store_def VirtualFree_writes)

lemma revert_order_eq:
  "revert_order s =
     (if g_hooksInstalled s
      then (if vp_ok s CLIENT_ISALREADYRUNNING_ADDR 16 then [CLIENT_ISALREADYRUNNING_ADDR] else []) @
           (if vp_ok s CLBLOCKALLOCATOR_OPENDATAFILE_ADDR 32
            then [CLBLOCKALLOCATOR_OPENDATAFILE_ADDR] else [])
      else [])"
  by (simp add: revert_order_def RemoveAllHooks_writes RemoveAllHooks_idle)

lemma host_denied_fresh:
  "valloc host_denied = [0x02000000] \<and> g_fileHookTrampoline host_denied = 0 \<and>
   live host_denied = {} \<and> \<not> g_hooksInstalled host_denied"
  by (simp add: host_denied_def loaded_def)

lemma read_bytes_take: "n \<le> k \<Longrightarrow> read_bytes m a n = take n (read_bytes m a k)"
  by (simp add: read_bytes_def take_map)

lemma write_bytes_outside: "length bs \<le> unat (x - a) \<Longrightarrow> write_bytes a bs m x = m x"
  by (simp add: write_bytes_def)

text \<open>The state after a successful \<open>InstallMutexHook\<close>.\<close>

lemma InstallMutexHook_window:
  assumes "fst (InstallMutexHook s)"
  shows "read_bytes (mem (snd (InstallMutexHook s))) CLIENT_ISALREADYRUNNING_ADDR 16 =
           [0x31, 0xC0, 0xC3] @ drop 3 (read_bytes (mem s) CLIENT_ISALREADYRUNNING_ADDR 16)"
  using assms read_write_prefix [of "[0x31, 0xC0, 0xC3]" 16 CLIENT_ISALREADYRUNNING_ADDR "mem s"]
  by (simp add: InstallMutexHook_eq numeral_3_eq_3 split: if_splits)

lemma InstallMutexHook_snapshot:
  "fst (InstallMutexHook s) \<Longrightarrow>
   g_mutexOriginalBytes (snd (InstallMutexHook s)) =
     read_bytes (mem s) CLIENT_ISALREADYRUNNING_ADDR 16"
  by (simp add: InstallMutexHook_eq split: if_splits)

lemma InstallMutexHook_file_window:
  "read_bytes (mem (snd (InstallMutexHook s))) CLBLOCKALLOCATOR_OPENDATAFILE_ADDR 32 =
   read_bytes (mem s) CLBLOCKALLOCATOR_OPENDATAFILE_ADDR 32"
proof (cases "vp_ok s CLIENT_ISALREADYRUNNING_ADDR 16")
  case True
  have "read_bytes (write_bytes CLIENT_ISALREADYRUNNING_ADDR [0x31, 0xC0, 0xC3] (mem s))
          CLBLOCKALLOCATOR_OPENDATAFILE_ADDR 32 =
        read_bytes (mem s) CLBLOCKALLOCATOR_OPENDATAFILE_ADDR 32"
    by (rule read_write_other) (use file_window_clear_of_mutex in fastforce)
  with True show ?thesis
    by (simp add: InstallMutexHook_eq)
next
  case False
  then show ?thesis
    by (simp add: InstallMutexHook_eq)
qed

text \<open>The globals after a successful \<open>InstallFileHook\<close>.\<close>

lemma InstallFileHook_globals:
  assumes "fst (InstallFileHook s)"
  shows "g_fileOriginalBytes (snd (InstallFileHook s)) =
           read_bytes (mem s) CLBLOCKALLOCATOR_OPENDATAFILE_ADDR 32 \<and>
         g_mutexOriginalBytes (snd (InstallFileHook s)) = g_mutexOriginalBytes s \<and>
         g_fileHookTrampoline (snd (InstallFileHook s)) \<noteq> 0 \<and>
         g_fileHookTrampoline (snd (InstallFileHook s)) \<in> live (snd (InstallFileHook s)) \<and>
         bad_free (snd (InstallFileHook s)) = bad_free s \<and>
         vp_ok (snd (InstallFileHook s)) = vp_ok s"
proof -
  from assms obtain t ts where "valloc s = t # ts" "t \<noteq> 0"
    "vp_ok s CLBLOCKALLOCATOR_OPENDATAFILE_ADDR 32"
    by (auto simp: InstallFileHook_succeeds)
  then show ?thesis
    by (simp add: InstallFileHook_ok Let_def)
qed

text \<open>The globals after a successful \<open>InstallAllHooks\<close>.\<close>

lemma InstallAllHooks_globals:
  assumes "fst (InstallAllHooks s)"
  shows "g_hooksInstalled (snd (InstallAllHooks s)) \<and>
         g_mutexOriginalBytes (snd (InstallAllHooks s)) =
           read_bytes (mem s) CLIENT_ISALREADYRUNNING_ADDR 16 \<and>
         g_fileOriginalBytes (snd (InstallAllHooks s)) =
           read_bytes (mem s) CLBLOCKALLOCATOR_OPENDATAFILE_ADDR 32 \<and>
         g_fileHookTrampoline (snd (InstallAllHooks s)) \<noteq> 0 \<and>
         g_fileHookTrampoline (snd (InstallAllHooks s)) \<in> live (snd (InstallAllHooks s)) \<and>
         bad_free (snd (InstallAllHooks s)) = bad_free s \<and>
         vp_ok (snd (InstallAllHooks s)) CLIENT_ISALREADYRUNNING_ADDR 16 \<and>
         vp_ok (snd (InstallAllHooks s)) CLBLOCKALLOCATOR_OPENDATAFILE_ADDR 32"
proof -
  from assms have m: "fst (InstallMutexHook s)"
    and f: "fst (InstallFileHook (snd (InstallMutexHook s)))"
    by (simp_all add: InstallAllHooks_succeeds)
  from f have "vp_ok (snd (InstallMutexHook s)) CLBLOCKALLOCATOR_OPENDATAFILE_ADDR 32"
    by (auto simp: InstallFileHook_succeeds)
  moreover from m have "vp_ok (snd (InstallMutexHook s)) CLIENT_ISALREADYRUNNING_ADDR 16"
    by (simp add: InstallMutexHook_succeeds InstallMutexHook_vp_ok)
  moreover have "bad_free (snd (InstallMutexHook s)) = bad_free s"
    by (simp add: InstallMutexHook_eq)
  ultimately show ?thesis
    using m f InstallFileHook_globals [OF f]
    by (simp add: InstallAllHooks_state InstallMutexHook_snapshot InstallMutexHook_file_window)
qed

text \<open>What a granted \<open>RemoveAllHooks\<close> leaves in the two windows: the saved
  bytes.\<close>

lemma RemoveAllHooks_windows:
  assumes "g_hooksInstalled s"
    and "vp_ok s CLIENT_ISALREADYRUNNING_ADDR 16"
    and "vp_ok s CLBLOCKALLOCATOR_OPENDATAFILE_ADDR 32"
    and "length (g_mutexOriginalBytes s) = 16" and "length (g_fileOriginalBytes s) = 32"
  shows "read_bytes (mem (RemoveAllHooks s)) CLIENT_ISALREADYRUNNING_ADDR 16 =
           g_mutexOriginalBytes s \<and>
         read_bytes (mem (RemoveAllHooks s)) CLBLOCKALLOCATOR_OPENDATAFILE_ADDR 32 =
           g_fileOriginalBytes s"
proof -
  let ?m1 = "write_bytes CLIENT_ISALREADYRUNNING_ADDR (g_mutexOriginalBytes s) (mem s)"
  let ?m2 = "write_bytes CLBLOCKALLOCATOR_OPENDATAFILE_ADDR (g_fileOriginalBytes s) ?m1"
  from assms have m: "mem (RemoveAllHooks s) = ?m2"
    by (simp add: RemoveAllHooks_eq Let_def store_def VirtualFree_mem)
  have "read_bytes ?m2 CLIENT_ISALREADYRUNNING_ADDR 16 =
        read_bytes ?m1 CLIENT_ISALREADYRUNNING_ADDR 16"
    by (rule read_write_other) (use assms(5) mutex_window_clear_of_file in simp)
  also have "\<dots> = g_mutexOriginalBytes s"
    using assms(4) by (simp add: read_write_same)
  finally have "read_bytes ?m2 CLIENT_ISALREADYRUNNING_ADDR 16 = g_mutexOriginalBytes s" .
  moreover have "read_bytes ?m2 CLBLOCKALLOCATOR_OPENDATAFILE_ADDR 32 = g_fileOriginalBytes s"
    using assms(5) by (simp add: read_write_same)
  ultimately show ?thesis
    using m by simp
qed

lemma RemoveAllHooks_release:
  assumes "g_hooksInstalled s"
  shows "\<not> g_hooksInstalled (RemoveAllHooks s) \<and>
         g_fileHookTrampoline (RemoveAllHooks s) = 0 \<and>
         (g_fileHookTrampoline s \<noteq> 0 \<longrightarrow>
            live (RemoveAllHooks s) = live s - {g_fileHookTrampoline s}) \<and>
         (g_fileHookTrampoline s \<in> live s \<longrightarrow> bad_free (RemoveAllHooks s) = bad_free s)"
  using assms by (simp add: RemoveAllHooks_eq Let_def store_def VirtualFree_def)

text \<open>The block a successful \<open>InstallAllHooks\<close> holds.\<close>

lemma InstallAllHooks_block:
  assumes "fst (InstallAllHooks s)"
  shows "g_fileHookTrampoline (snd (InstallAllHooks s)) = hd (valloc s) \<and>
         live (snd (InstallAllHooks s)) = insert (hd (valloc s)) (live s)"
proof -
  from assms have m: "fst (InstallMutexHook s)"
    and f: "fst (InstallFileHook (snd (InstallMutexHook s)))"
    by (simp_all add: InstallAllHooks_succeeds)
  have same: "valloc (snd (InstallMutexHook s)) = valloc s"
    "live (snd (InstallMutexHook s)) = live s"
    by (simp_all add: InstallMutexHook_eq)
  from f obtain t ts where v: "valloc (snd (InstallMutexHook s)) = t # ts" and t: "t \<noteq> 0"
    and p: "vp_ok (snd (InstallMutexHook s)) CLBLOCKALLOCATOR_OPENDATAFILE_ADDR 32"
    by (auto simp: InstallFileHook_succeeds)
  from v same have "hd (valloc s) = t"
    by simp
  with m f same(2) show ?thesis
    by (simp add: InstallAllHooks_state InstallFileHook_ok [OF v t p] Let_def)
qed

lemma InstallFileHook_failed:
  assumes "\<not> fst (InstallFileHook s)"
  shows "mem (snd (InstallFileHook s)) = mem s \<and>
         writes (snd (InstallFileHook s)) = writes s \<and>
         g_mutexOriginalBytes (snd (InstallFileHook s)) = g_mutexOriginalBytes s"
proof (cases "valloc s")
  case Nil
  then show ?thesis
    by (simp add: InstallFileHook_alloc_fails)
next
  case (Cons t ts)
  with assms have "t = 0 \<or> \<not> vp_ok s CLBLOCKALLOCATOR_OPENDATAFILE_ADDR 32"
    by (auto simp: InstallFileHook_succeeds)
  with Cons show ?thesis
    by (cases "t = 0") (simp_all add: InstallFileHook_alloc_null InstallFileHook_vp_fails)
qed

lemma length_dword_bytes: "length (dword_bytes w) = 4"
  by (simp add: dword_bytes_def)

lemma read_bytes_10:
  "read_bytes m a 10 =
     [m a, m (a + 1), m (a + 2), m (a + 3), m (a + 4), m (a + 5), m (a + 6), m (a + 7),
      m (a + 8), m (a + 9)]"
  by (simp add: read_bytes_def upt_rec)

lemma read_bytes_5: "read_bytes m a 5 = [m a, m (a + 1), m (a + 2), m (a + 3), m (a + 4)]"
  by (simp add: read_bytes_def upt_rec)

lemma unat_max_dword: "unat (- 1 :: dword) = 4294967295"
  by (simp add: unsigned_minus_1_eq_mask mask_eq_exp_minus_1)

text \<open>The block filled by \<open>InstallFileHook\<close>, read back.\<close>

lemma trampoline_block:
  "read_bytes
     (write_bytes (t + 6) (dword_bytes w)
       (write_bytes (t + 5) [0xE9] (write_bytes t (read_bytes m h 5) m))) t 10 =
   read_bytes m h 5 @ 0xE9 # dword_bytes w"
  by (simp add: read_bytes_10 read_bytes_5 write_bytes_def dword_bytes_def unat_max_dword)

lemma InstallFileHook_success_state:
  assumes "fst (InstallFileHook s)"
  shows "InstallFileHook s =
     (let h = CLBLOCKALLOCATOR_OPENDATAFILE_ADDR; t = hd (valloc s) in
      (True,
       s\<lparr>valloc := tl (valloc s), live := insert t (live s),
         g_fileHookTrampoline := t,
         g_fileOriginalBytes := read_bytes (mem s) h 32,
         g_originalOpenDataFile := t,
         mem := write_bytes h (0xE9 # dword_bytes (hookOffset (hook_fn s) h))
                  (write_bytes (t + 6) (dword_bytes (jumpOffset h (t + 5)))
                    (write_bytes (t + 5) [0xE9]
                      (write_bytes t (read_bytes (mem s) h 5) (mem s)))),
         writes := writes s @
             [(t, read_bytes (mem s) h 5), (t + 5, [0xE9]),
              (t + 6, dword_bytes (jumpOffset h (t + 5))),
              (h, 0xE9 # dword_bytes (hookOffset (hook_fn s) h))]\<rparr>)) \<and>
     hd (valloc s) \<noteq> 0"
proof -
  from assms obtain t ts where v: "valloc s = t # ts" and t: "t \<noteq> 0"
    and p: "vp_ok s CLBLOCKALLOCATOR_OPENDATAFILE_ADDR 32"
    by (auto simp: InstallFileHook_succeeds)
  show ?thesis
    using t by (simp add: InstallFileHook_ok [OF v t p] v)
qed

section \<open>The sample processes\<close>

lemma host_ok_env:
  "vp_ok host_ok = (\<lambda>a n. True) \<and> valloc host_ok = [0x02000000] \<and> mem host_ok = host_mem \<and>
   \<not> g_hooksInstalled host_ok \<and> \<not> bad_free host_ok \<and> hook_fn host_ok = 0x00120000 \<and>
   writes host_ok = []"
  by (simp add: host_ok_def loaded_def)

lemma host_ok_installs: "fst (InstallMutexHook host_ok) \<and> fst (InstallAllHooks host_ok)"
  by (simp add: InstallAllHooks_succeeds InstallMutexHook_eq InstallFileHook_succeeds host_ok_env)

lemma host_mem_prologue: "read_bytes host_mem CLIENT_ISALREADYRUNNING_ADDR 3 = [0x55, 0x8B, 0xEC]"
  by (simp add: host_mem_def read_write_same)

lemma host_mem_mutex_window:
  "read_bytes host_mem CLIENT_ISALREADYRUNNING_ADDR 16 =
     [0x55, 0x8B, 0xEC, 0xA3, 0xA4, 0xA5, 0xA6, 0xA7, 0xA8, 0xA9, 0xAA, 0xAB, 0xAC, 0xAD, 0xAE, 0xAF]"
  by (simp add: host_mem_def read_bytes_def write_bytes_def upt_rec CLIENT_ISALREADYRUNNING_ADDR_def)

lemma host_denied_partial:
  "fst (InstallMutexHook host_denied) \<and>
   \<not> fst (InstallFileHook (snd (InstallMutexHook host_denied))) \<and>
   mem host_denied = host_mem"
  by (simp add: InstallMutexHook_eq InstallFileHook_succeeds host_denied_def loaded_def
      CLIENT_ISALREADYRUNNING_ADDR_def CLBLOCKALLOCATOR_OPENDATAFILE_ADDR_def)

lemma host_ok_installed:
  "g_hooksInstalled (snd (InstallAllHooks host_ok)) \<and>
   vp_ok (snd (InstallAllHooks host_ok)) CLIENT_ISALREADYRUNNING_ADDR 16 \<and>
   vp_ok (snd (InstallAllHooks host_ok)) CLBLOCKALLOCATOR_OPENDATAFILE_ADDR 32 \<and>
   g_fileHookTrampoline (snd (InstallAllHooks host_ok)) = 0x02000000 \<and>
   live (snd (InstallAllHooks host_ok)) = {0x02000000}"
  using host_ok_installs InstallAllHooks_globals [of host_ok] InstallAllHooks_block [of host_ok]
  by (simp add: host_ok_env host_ok_def loaded_def)

lemma host_ok_file_hook:
  "fst (InstallFileHook host_ok) \<and> g_fileHookTrampoline (snd (InstallFileHook host_ok)) = 0x02000000"
proof -
  have ok: "fst (InstallFileHook host_ok)"
    by (simp add: InstallFileHook_succeeds host_ok_env)
  from InstallFileHook_success_state [OF ok] ok show ?thesis
    by (simp add: host_ok_env Let_def)
qed

lemma host_mem_file_prologue:
  "read_bytes host_mem CLBLOCKALLOCATOR_OPENDATAFILE_ADDR 5 = [0x20, 0x21, 0x22, 0x23, 0x24]"
  by (simp add: read_bytes_5 host_mem_def write_bytes_def CLBLOCKALLOCATOR_OPENDATAFILE_ADDR_def
      CLIENT_ISALREADYRUNNING_ADDR_def)

lemma host_ok_offsets:
  "dword_bytes (jumpOffset CLBLOCKALLOCATOR_OPENDATAFILE_ADDR (0x02000000 + 5)) =
     [0x1B, 0x59, 0x67, 0xFE] \<and>
   dword_bytes (hookOffset 0x00120000 CLBLOCKALLOCATOR_OPENDATAFILE_ADDR) =
     [0xDB, 0xA6, 0xAA, 0xFF]"
  by (simp add: dword_bytes_def jumpOffset_def hookOffset_def CLBLOCKALLOCATOR_OPENDATAFILE_ADDR_def)

section \<open>Uninstalling and tearing down\<close>

text \<open>
  C6: \<open>RemoveAllHooks\<close> on a registry whose install state is Uninstalled (a
  fresh one, where install was never invoked) returns without error and stores
  nothing: the state, and so the memory, the log of stores and the record of
  bad releases, is the one before the call. The teardown path, \<open>DllMain\<close>
  with \<open>DLL_PROCESS_DETACH\<close>, is as safe when initialisation was never invoked,
  and when \<open>InstallAllHooks\<close> failed midway: it returns \<open>TRUE\<close> and changes
  nothing.
\<close>

theorem uninstall_before_install:
  assumes "\<not> g_hooksInstalled s"
  shows "RemoveAllHooks s = s \<and> writes (RemoveAllHooks s) = writes s \<and>
         mem (RemoveAllHooks s) = mem s \<and> bad_free (RemoveAllHooks s) = bad_free s \<and>
         DllMain DLL_PROCESS_DETACH s = (True, s) \<and>
         (\<not> fst (InstallAllHooks s) \<longrightarrow>
            DllMain DLL_PROCESS_DETACH (snd (InstallAllHooks s)) =
              (True, snd (InstallAllHooks s)))"
  using assms
  by (simp add: RemoveAllHooks_idle DllMain_def DLL_PROCESS_DETACH_def DLL_PROCESS_ATTACH_def
      failed_install_flag)

theorem uninstall_before_install_witness:
  "\<not> g_hooksInstalled host_denied \<and> \<not> fst (InstallAllHooks host_denied) \<and>
   RemoveAllHooks host_denied = host_denied \<and>
   writes (RemoveAllHooks host_denied) = [] \<and>
   DllMain DLL_PROCESS_DETACH host_denied = (True, host_denied) \<and>
   DllMain DLL_PROCESS_DETACH (snd (InstallAllHooks host_denied)) =
     (True, snd (InstallAllHooks host_denied))"
proof -
  have fresh: "\<not> g_hooksInstalled host_denied"
    by (simp add: host_denied_def loaded_def)
  have "writes host_denied = []"
    by (simp add: host_denied_def loaded_def)
  with fresh host_denied_fails uninstall_before_install [OF fresh] show ?thesis
    by simp
qed

section \<open>The exported entry point\<close>


section \<open>Memory protection\<close>

text \<open>
  C8: in every install and uninstall operation (\<open>InstallMutexHook\<close>,
  \<open>InstallFileHook\<close>, \<open>InstallAllHooks\<close>, \<open>HookStartup\<close>, \<open>RemoveAllHooks\<close>)
  the protection of every page is, when the operation returns, what it was
  when the operation began, on every exit path: a granted change to writable
  is always followed by the restoring call, also when a later patch fails. A
  refused change performs no mutation and aborts only the installation of
  that patch: a refused mutex patch returns \<open>FALSE\<close> with the state untouched,
  a refused file patch returns \<open>FALSE\<close> with memory and the log of stores
  untouched, and in \<open>InstallAllHooks\<close> it leaves the mutex patch, already
  applied, as it is; in \<open>RemoveAllHooks\<close> a refused target is not stored to.
\<close>

theorem protection_restored:
  "prot (snd (InstallMutexHook s)) = prot s \<and>
   prot (snd (InstallFileHook s)) = prot s \<and>
   prot (snd (InstallAllHooks s)) = prot s \<and>
   prot (snd (HookStartup s)) = prot s \<and>
   prot (RemoveAllHooks s) = prot s \<and>
   (\<not> vp_ok s CLIENT_ISALREADYRUNNING_ADDR 16 \<longrightarrow>
      InstallMutexHook s = (False, s) \<and>
      CLIENT_ISALREADYRUNNING_ADDR \<notin> set (revert_order s)) \<and>
   (\<not> vp_ok s CLBLOCKALLOCATOR_OPENDATAFILE_ADDR 32 \<longrightarrow>
      \<not> fst (InstallFileHook s) \<and>
      mem (snd (InstallFileHook s)) = mem s \<and>
      writes (snd (InstallFileHook s)) = writes s \<and>
      CLBLOCKALLOCATOR_OPENDATAFILE_ADDR \<notin> set (revert_order s)) \<and>
   (vp_ok s CLIENT_ISALREADYRUNNING_ADDR 16 \<and>
    \<not> vp_ok s CLBLOCKALLOCATOR_OPENDATAFILE_ADDR 32 \<longrightarrow>
      \<not> fst (InstallAllHooks s) \<and>
      mem (snd (InstallAllHooks s)) = mem (snd (InstallMutexHook s)) \<and>
      writes (snd (InstallAllHooks s)) = writes (snd (InstallMutexHook s)))"
proof -
  have filepart: "\<not> fst (InstallFileHook (snd (InstallMutexHook s))) \<and>
      mem (snd (InstallFileHook (snd (InstallMutexHook s)))) = mem (snd (InstallMutexHook s)) \<and>
      writes (snd (InstallFileHook (snd (InstallMutexHook s)))) = writes (snd (InstallMutexHook s))"
    if "\<not> vp_ok s CLBLOCKALLOCATOR_OPENDATAFILE_ADDR 32"
    using that by (intro InstallFileHook_refused) (simp add: InstallMutexHook_vp_ok)
  have all: "\<not> fst (InstallAllHooks s) \<and>
      mem (snd (InstallAllHooks s)) = mem (snd (InstallMutexHook s)) \<and>
      writes (snd (InstallAllHooks s)) = writes (snd (InstallMutexHook s))"
    if "vp_ok s CLIENT_ISALREADYRUNNING_ADDR 16" "\<not> vp_ok s CLBLOCKALLOCATOR_OPENDATAFILE_ADDR 32"
    using that filepart
    by (simp add: InstallAllHooks_succeeds InstallAllHooks_state InstallMutexHook_succeeds)
  show ?thesis
    using all targets_differ
    by (simp add: InstallMutexHook_prot InstallFileHook_prot InstallAllHooks_prot
        HookStartup_state RemoveAllHooks_prot InstallMutexHook_eq InstallFileHook_refused
        revert_order_eq)
qed

theorem protection_restored_witness:
  "vp_ok host_denied CLIENT_ISALREADYRUNNING_ADDR 16 \<and>
   \<not> vp_ok host_denied CLBLOCKALLOCATOR_OPENDATAFILE_ADDR 32 \<and>
   \<not> vp_ok host_locked CLIENT_ISALREADYRUNNING_ADDR 16 \<and>
   prot (snd (InstallAllHooks host_denied)) = prot host_denied \<and>
   prot (RemoveAllHooks host_denied) = prot host_denied \<and>
   \<not> fst (InstallAllHooks host_denied) \<and>
   mem (snd (InstallAllHooks host_denied)) = mem (snd (InstallMutexHook host_denied)) \<and>
   \<not> fst (InstallFileHook host_denied) \<and>
   mem (snd (InstallFileHook host_denied)) = mem host_denied \<and>
   InstallMutexHook host_locked = (False, host_locked)"
proof -
  have a: "vp_ok host_denied CLIENT_ISALREADYRUNNING_ADDR 16"
    by (simp add: host_denied_def loaded_def)
  have b: "\<not> vp_ok host_denied CLBLOCKALLOCATOR_OPENDATAFILE_ADDR 32"
    by (simp add: host_denied_def loaded_def CLIENT_ISALREADYRUNNING_ADDR_def
        CLBLOCKALLOCATOR_OPENDATAFILE_ADDR_def)
  have c: "\<not> vp_ok host_locked CLIENT_ISALREADYRUNNING_ADDR 16"
    by (simp add: host_locked_def loaded_def)
  from a b c protection_restored [of host_denied] protection_restored [of host_locked]
  show ?thesis
    by blast
qed

section \<open>A refused file hook\<close>

text \<open>
  C10: when \<open>VirtualAlloc\<close> has returned the block \<open>t\<close> and the protection
  change on the target is then refused, \<open>InstallFileHook\<close> returns \<open>FALSE\<close>,
  has released the block again (without a bad release), has reset
  \<open>g_fileHookTrampoline\<close> to \<open>NULL\<close>, has stored nothing (memory and the log of
  stores are unchanged, and so are the page protections), and has left
  \<open>g_originalOpenDataFile\<close> and the other globals as they were. So when the
  handle was \<open>NULL\<close> before the call (and the block new), the state after the
  call is the state before it, but for the allocator having handed out one
  address.
\<close>

theorem InstallFileHook_denied_atomic:
  assumes "valloc s = t # ts" and "t \<noteq> 0"
    and "\<not> vp_ok s CLBLOCKALLOCATOR_OPENDATAFILE_ADDR 32"
  shows "\<not> fst (InstallFileHook s) \<and>
         t \<notin> live (snd (InstallFileHook s)) \<and>
         live (snd (InstallFileHook s)) = live s - {t} \<and>
         bad_free (snd (InstallFileHook s)) = bad_free s \<and>
         g_fileHookTrampoline (snd (InstallFileHook s)) = 0 \<and>
         mem (snd (InstallFileHook s)) = mem s \<and>
         writes (snd (InstallFileHook s)) = writes s \<and>
         prot (snd (InstallFileHook s)) = prot s \<and>
         g_originalOpenDataFile (snd (InstallFileHook s)) = g_originalOpenDataFile s \<and>
         g_fileOriginalBytes (snd (InstallFileHook s)) = g_fileOriginalBytes s \<and>
         g_mutexOriginalBytes (snd (InstallFileHook s)) = g_mutexOriginalBytes s \<and>
         g_hooksInstalled (snd (InstallFileHook s)) = g_hooksInstalled s \<and>
         (g_fileHookTrampoline s = 0 \<and> t \<notin> live s \<longrightarrow>
            snd (InstallFileHook s) = s\<lparr>valloc := ts\<rparr>)"
  using assms by (auto simp add: InstallFileHook_vp_fails)

theorem InstallFileHook_denied_atomic_witness:
  "valloc host_denied = [0x02000000] \<and> (0x02000000 :: dword) \<noteq> 0 \<and>
   \<not> vp_ok host_denied CLBLOCKALLOCATOR_OPENDATAFILE_ADDR 32 \<and>
   g_fileHookTrampoline host_denied = 0 \<and> 0x02000000 \<notin> live host_denied \<and>
   \<not> fst (InstallFileHook host_denied) \<and>
   g_fileHookTrampoline (snd (InstallFileHook host_denied)) = 0 \<and>
   live (snd (InstallFileHook host_denied)) = {} \<and>
   mem (snd (InstallFileHook host_denied)) = mem host_denied \<and>
   writes (snd (InstallFileHook host_denied)) = writes host_denied \<and>
   g_originalOpenDataFile (snd (InstallFileHook host_denied)) =
     g_originalOpenDataFile host_denied \<and>
   snd (InstallFileHook host_denied) = host_denied\<lparr>valloc := []\<rparr>"
proof -
  have b: "\<not> vp_ok host_denied CLBLOCKALLOCATOR_OPENDATAFILE_ADDR 32"
    by (simp add: host_denied_def loaded_def CLIENT_ISALREADYRUNNING_ADDR_def
        CLBLOCKALLOCATOR_OPENDATAFILE_ADDR_def)
  have v: "valloc host_denied = [0x02000000]"
    using host_denied_fresh by simp
  from InstallFileHook_denied_atomic [OF v _ b] host_denied_fresh b
  show ?thesis
    by simp
qed

section \<open>The inline patch\<close>

text \<open>
  C7, as the code has it: a successful \<open>InstallMutexHook\<close> makes one store, of
  exactly the three bytes \<open>0x31, 0xC0, 0xC3\<close> (\<open>xor eax, eax; ret\<close>), at the
  start of \<open>Client::IsAlreadyRunning\<close>: reading the patched window yields those
  bytes followed by the remainder of the window as it was, every address
  outside the three bytes keeps its byte, and the 16 bytes saved are the
  window as it was before the patch. The revert (\<open>RemoveAllHooks\<close>) restores
  the original bytes of the window exactly once the whole install has
  succeeded (\<open>InstallAllHooks\<close> returned \<open>TRUE\<close>, so the install state is
  Installed). After the patch alone, applied to an uninstalled registry, the
  revert is gated on the install state and is a no-op: the three bytes stay.
\<close>

theorem mutex_patch_bytes:
  "(fst (InstallMutexHook s) \<longrightarrow>
      drop (length (writes s)) (writes (snd (InstallMutexHook s))) =
        [(CLIENT_ISALREADYRUNNING_ADDR, [0x31, 0xC0, 0xC3])] \<and>
      read_bytes (mem (snd (InstallMutexHook s))) CLIENT_ISALREADYRUNNING_ADDR 3 =
        [0x31, 0xC0, 0xC3] \<and>
      read_bytes (mem (snd (InstallMutexHook s))) CLIENT_ISALREADYRUNNING_ADDR 16 =
        [0x31, 0xC0, 0xC3] @ drop 3 (read_bytes (mem s) CLIENT_ISALREADYRUNNING_ADDR 16) \<and>
      (\<forall>x. 3 \<le> unat (x - CLIENT_ISALREADYRUNNING_ADDR) \<longrightarrow>
           mem (snd (InstallMutexHook s)) x = mem s x) \<and>
      g_mutexOriginalBytes (snd (InstallMutexHook s)) =
        read_bytes (mem s) CLIENT_ISALREADYRUNNING_ADDR 16) \<and>
   (fst (InstallAllHooks s) \<longrightarrow>
      read_bytes (mem (RemoveAllHooks (snd (InstallAllHooks s)))) CLIENT_ISALREADYRUNNING_ADDR 16 =
        read_bytes (mem s) CLIENT_ISALREADYRUNNING_ADDR 16 \<and>
      read_bytes (mem (RemoveAllHooks (snd (InstallAllHooks s)))) CLIENT_ISALREADYRUNNING_ADDR 3 =
        read_bytes (mem s) CLIENT_ISALREADYRUNNING_ADDR 3) \<and>
   (fst (InstallMutexHook s) \<and> \<not> g_hooksInstalled s \<longrightarrow>
      RemoveAllHooks (snd (InstallMutexHook s)) = snd (InstallMutexHook s) \<and>
      read_bytes (mem (RemoveAllHooks (snd (InstallMutexHook s)))) CLIENT_ISALREADYRUNNING_ADDR 3 =
        [0x31, 0xC0, 0xC3])"
proof -
  have w16: "read_bytes (mem (snd (InstallMutexHook s))) CLIENT_ISALREADYRUNNING_ADDR 16 =
        [0x31, 0xC0, 0xC3] @ drop 3 (read_bytes (mem s) CLIENT_ISALREADYRUNNING_ADDR 16)"
    if "fst (InstallMutexHook s)"
    using that by (rule InstallMutexHook_window)
  have w3: "read_bytes (mem (snd (InstallMutexHook s))) CLIENT_ISALREADYRUNNING_ADDR 3 =
        [0x31, 0xC0, 0xC3]"
    if "fst (InstallMutexHook s)"
    using read_bytes_take [of 3 16 "mem (snd (InstallMutexHook s))" CLIENT_ISALREADYRUNNING_ADDR]
    by (simp add: w16 [OF that])
  have applied: "drop (length (writes s)) (writes (snd (InstallMutexHook s))) =
        [(CLIENT_ISALREADYRUNNING_ADDR, [0x31, 0xC0, 0xC3])] \<and>
      (\<forall>x. 3 \<le> unat (x - CLIENT_ISALREADYRUNNING_ADDR) \<longrightarrow>
           mem (snd (InstallMutexHook s)) x = mem s x) \<and>
      g_mutexOriginalBytes (snd (InstallMutexHook s)) =
        read_bytes (mem s) CLIENT_ISALREADYRUNNING_ADDR 16"
    if "fst (InstallMutexHook s)"
    using that by (simp add: InstallMutexHook_eq write_bytes_outside split: if_splits)
  have reverted: "read_bytes (mem (RemoveAllHooks (snd (InstallAllHooks s))))
          CLIENT_ISALREADYRUNNING_ADDR 16 =
        read_bytes (mem s) CLIENT_ISALREADYRUNNING_ADDR 16 \<and>
      read_bytes (mem (RemoveAllHooks (snd (InstallAllHooks s)))) CLIENT_ISALREADYRUNNING_ADDR 3 =
        read_bytes (mem s) CLIENT_ISALREADYRUNNING_ADDR 3"
    if ok: "fst (InstallAllHooks s)"
  proof -
    let ?s1 = "snd (InstallAllHooks s)"
    from InstallAllHooks_globals [OF ok] RemoveAllHooks_windows [of ?s1]
    have r16: "read_bytes (mem (RemoveAllHooks ?s1)) CLIENT_ISALREADYRUNNING_ADDR 16 =
        read_bytes (mem s) CLIENT_ISALREADYRUNNING_ADDR 16"
      by (simp add: length_read_bytes)
    have "read_bytes (mem (RemoveAllHooks ?s1)) CLIENT_ISALREADYRUNNING_ADDR 3 =
        read_bytes (mem s) CLIENT_ISALREADYRUNNING_ADDR 3"
      using read_bytes_take [of 3 16 _ CLIENT_ISALREADYRUNNING_ADDR]
      by (simp add: r16)
    with r16 show ?thesis
      by simp
  qed
  have gated: "RemoveAllHooks (snd (InstallMutexHook s)) = snd (InstallMutexHook s)"
    if "\<not> g_hooksInstalled s"
    using that by (simp add: RemoveAllHooks_idle InstallMutexHook_flag)
  from w16 w3 applied reverted gated show ?thesis
    by simp
qed

theorem mutex_patch_bytes_witness:
  "read_bytes (mem host_ok) CLIENT_ISALREADYRUNNING_ADDR 3 = [0x55, 0x8B, 0xEC] \<and>
   fst (InstallMutexHook host_ok) \<and>
   read_bytes (mem (snd (InstallMutexHook host_ok))) CLIENT_ISALREADYRUNNING_ADDR 3 =
     [0x31, 0xC0, 0xC3] \<and>
   read_bytes (mem (snd (InstallMutexHook host_ok))) CLIENT_ISALREADYRUNNING_ADDR 16 =
     [0x31, 0xC0, 0xC3, 0xA3, 0xA4, 0xA5, 0xA6, 0xA7, 0xA8, 0xA9, 0xAA, 0xAB, 0xAC, 0xAD, 0xAE, 0xAF] \<and>
   3 \<le> unat (CLIENT_ISALREADYRUNNING_ADDR + 3 - CLIENT_ISALREADYRUNNING_ADDR) \<and>
   mem (snd (InstallMutexHook host_ok)) (CLIENT_ISALREADYRUNNING_ADDR + 3) =
     mem host_ok (CLIENT_ISALREADYRUNNING_ADDR + 3) \<and>
   fst (InstallAllHooks host_ok) \<and>
   read_bytes (mem (RemoveAllHooks (snd (InstallAllHooks host_ok)))) CLIENT_ISALREADYRUNNING_ADDR 3 =
     [0x55, 0x8B, 0xEC] \<and>
   \<not> g_hooksInstalled host_ok \<and>
   RemoveAllHooks (snd (InstallMutexHook host_ok)) = snd (InstallMutexHook host_ok) \<and>
   read_bytes (mem (RemoveAllHooks (snd (InstallMutexHook host_ok)))) CLIENT_ISALREADYRUNNING_ADDR 3 =
     [0x31, 0xC0, 0xC3]"
proof -
  note inst = mutex_patch_bytes [of host_ok]
  have far: "3 \<le> unat (CLIENT_ISALREADYRUNNING_ADDR + 3 - CLIENT_ISALREADYRUNNING_ADDR)"
    by simp
  have fresh: "\<not> g_hooksInstalled host_ok"
    using host_ok_env by simp
  from inst host_ok_installs
  have untouched: "mem (snd (InstallMutexHook host_ok)) (CLIENT_ISALREADYRUNNING_ADDR + 3) =
     mem host_ok (CLIENT_ISALREADYRUNNING_ADDR + 3)"
    using far by blast
  from inst host_ok_installs fresh
  have gated: "RemoveAllHooks (snd (InstallMutexHook host_ok)) = snd (InstallMutexHook host_ok) \<and>
      read_bytes (mem (RemoveAllHooks (snd (InstallMutexHook host_ok))))
        CLIENT_ISALREADYRUNNING_ADDR 3 = [0x31, 0xC0, 0xC3]"
    by blast
  from inst host_ok_installs host_mem_prologue host_mem_mutex_window
  have bytes: "read_bytes (mem host_ok) CLIENT_ISALREADYRUNNING_ADDR 3 = [0x55, 0x8B, 0xEC] \<and>
      read_bytes (mem (snd (InstallMutexHook host_ok))) CLIENT_ISALREADYRUNNING_ADDR 3 =
        [0x31, 0xC0, 0xC3] \<and>
      read_bytes (mem (snd (InstallMutexHook host_ok))) CLIENT_ISALREADYRUNNING_ADDR 16 =
        [0x31, 0xC0, 0xC3, 0xA3, 0xA4, 0xA5, 0xA6, 0xA7, 0xA8, 0xA9, 0xAA, 0xAB, 0xAC, 0xAD,
         0xAE, 0xAF] \<and>
      read_bytes (mem (RemoveAllHooks (snd (InstallAllHooks host_ok))))
        CLIENT_ISALREADYRUNNING_ADDR 3 = [0x55, 0x8B, 0xEC]"
    by (simp add: host_ok_env)
  from bytes far untouched fresh gated host_ok_installs show ?thesis
    by blast
qed

text \<open>
  C7 as stated fails: in the sample host that refuses only the second target,
  the inline patch is applied over \<open>0x55, 0x8B, 0xEC\<close>, and after the revert
  the window still reads \<open>0x31, 0xC0, 0xC3\<close>, not the original bytes.
\<close>

theorem inline_patch_not_reverted:
  "read_bytes (mem host_denied) CLIENT_ISALREADYRUNNING_ADDR 3 = [0x55, 0x8B, 0xEC] \<and>
   fst (InstallMutexHook host_denied) \<and>
   read_bytes (mem (snd (InstallMutexHook host_denied))) CLIENT_ISALREADYRUNNING_ADDR 3 =
     [0x31, 0xC0, 0xC3] \<and>
   read_bytes (mem (RemoveAllHooks (snd (InstallMutexHook host_denied))))
       CLIENT_ISALREADYRUNNING_ADDR 3 = [0x31, 0xC0, 0xC3] \<and>
   read_bytes (mem (RemoveAllHooks (snd (InstallMutexHook host_denied))))
       CLIENT_ISALREADYRUNNING_ADDR 3 \<noteq>
     read_bytes (mem host_denied) CLIENT_ISALREADYRUNNING_ADDR 3"
proof -
  have ok: "fst (InstallMutexHook host_denied)"
    using host_denied_partial by simp
  have orig: "read_bytes (mem host_denied) CLIENT_ISALREADYRUNNING_ADDR 3 = [0x55, 0x8B, 0xEC]"
    using host_denied_partial host_mem_prologue by simp
  have "\<not> g_hooksInstalled (snd (InstallMutexHook host_denied))"
    using host_denied_fresh by (simp add: InstallMutexHook_flag)
  then have idle: "RemoveAllHooks (snd (InstallMutexHook host_denied)) =
      snd (InstallMutexHook host_denied)"
    by (rule RemoveAllHooks_idle)
  have patched: "read_bytes (mem (snd (InstallMutexHook host_denied)))
      CLIENT_ISALREADYRUNNING_ADDR 3 = [0x31, 0xC0, 0xC3]"
    using read_bytes_take [of 3 16 "mem (snd (InstallMutexHook host_denied))"
        CLIENT_ISALREADYRUNNING_ADDR]
    by (simp add: InstallMutexHook_window [OF ok])
  from ok orig patched show ?thesis
    by (simp add: idle)
qed

section \<open>Install, then remove, then remove again\<close>

text \<open>
  C2, as the code has it: for every initial memory, once \<open>InstallAllHooks\<close>
  has applied both patches (it returned \<open>TRUE\<close>, so the install state is
  Installed), \<open>RemoveAllHooks\<close> (their revert) leaves in each target window,
  byte for byte, the snapshot taken at install time, which is the window as it
  was before the install. A second \<open>RemoveAllHooks\<close> right after is a no-op:
  the state does not change, no release of a block that is not live has
  happened, and the trampoline block, released once, is not live. A patch
  applied alone to an uninstalled registry is not reverted: \<open>RemoveAllHooks\<close>
  is gated on the install state and is then a no-op.
\<close>

theorem install_remove_roundtrip:
  "(fst (InstallAllHooks s) \<longrightarrow>
      read_bytes (mem (RemoveAllHooks (snd (InstallAllHooks s)))) CLIENT_ISALREADYRUNNING_ADDR 16 =
        g_mutexOriginalBytes (snd (InstallAllHooks s)) \<and>
      read_bytes (mem (RemoveAllHooks (snd (InstallAllHooks s))))
          CLBLOCKALLOCATOR_OPENDATAFILE_ADDR 32 =
        g_fileOriginalBytes (snd (InstallAllHooks s)) \<and>
      g_mutexOriginalBytes (snd (InstallAllHooks s)) =
        read_bytes (mem s) CLIENT_ISALREADYRUNNING_ADDR 16 \<and>
      g_fileOriginalBytes (snd (InstallAllHooks s)) =
        read_bytes (mem s) CLBLOCKALLOCATOR_OPENDATAFILE_ADDR 32 \<and>
      RemoveAllHooks (RemoveAllHooks (snd (InstallAllHooks s))) =
        RemoveAllHooks (snd (InstallAllHooks s)) \<and>
      bad_free (RemoveAllHooks (RemoveAllHooks (snd (InstallAllHooks s)))) = bad_free s \<and>
      g_fileHookTrampoline (snd (InstallAllHooks s)) \<notin>
        live (RemoveAllHooks (snd (InstallAllHooks s)))) \<and>
   (\<not> g_hooksInstalled s \<longrightarrow>
      RemoveAllHooks (snd (InstallMutexHook s)) = snd (InstallMutexHook s) \<and>
      RemoveAllHooks (snd (InstallFileHook s)) = snd (InstallFileHook s))"
proof -
  have installed:
    "read_bytes (mem (RemoveAllHooks (snd (InstallAllHooks s)))) CLIENT_ISALREADYRUNNING_ADDR 16 =
        g_mutexOriginalBytes (snd (InstallAllHooks s)) \<and>
      read_bytes (mem (RemoveAllHooks (snd (InstallAllHooks s))))
          CLBLOCKALLOCATOR_OPENDATAFILE_ADDR 32 =
        g_fileOriginalBytes (snd (InstallAllHooks s)) \<and>
      g_mutexOriginalBytes (snd (InstallAllHooks s)) =
        read_bytes (mem s) CLIENT_ISALREADYRUNNING_ADDR 16 \<and>
      g_fileOriginalBytes (snd (InstallAllHooks s)) =
        read_bytes (mem s) CLBLOCKALLOCATOR_OPENDATAFILE_ADDR 32 \<and>
      RemoveAllHooks (RemoveAllHooks (snd (InstallAllHooks s))) =
        RemoveAllHooks (snd (InstallAllHooks s)) \<and>
      bad_free (RemoveAllHooks (RemoveAllHooks (snd (InstallAllHooks s)))) = bad_free s \<and>
      g_fileHookTrampoline (snd (InstallAllHooks s)) \<notin>
        live (RemoveAllHooks (snd (InstallAllHooks s)))"
    if ok: "fst (InstallAllHooks s)"
  proof -
    let ?s1 = "snd (InstallAllHooks s)"
    note g = InstallAllHooks_globals [OF ok]
    from g have inst: "g_hooksInstalled ?s1"
      by simp
    from g RemoveAllHooks_windows [of ?s1]
    have w: "read_bytes (mem (RemoveAllHooks ?s1)) CLIENT_ISALREADYRUNNING_ADDR 16 =
               g_mutexOriginalBytes ?s1 \<and>
             read_bytes (mem (RemoveAllHooks ?s1)) CLBLOCKALLOCATOR_OPENDATAFILE_ADDR 32 =
               g_fileOriginalBytes ?s1"
      by (simp add: length_read_bytes)
    from RemoveAllHooks_release [OF inst] g
    have r: "\<not> g_hooksInstalled (RemoveAllHooks ?s1) \<and>
             live (RemoveAllHooks ?s1) = live ?s1 - {g_fileHookTrampoline ?s1} \<and>
             bad_free (RemoveAllHooks ?s1) = bad_free s"
      by simp
    then have "RemoveAllHooks (RemoveAllHooks ?s1) = RemoveAllHooks ?s1"
      by (simp add: RemoveAllHooks_idle)
    with w r g show ?thesis
      by simp
  qed
  have gated: "RemoveAllHooks (snd (InstallMutexHook s)) = snd (InstallMutexHook s) \<and>
      RemoveAllHooks (snd (InstallFileHook s)) = snd (InstallFileHook s)"
    if "\<not> g_hooksInstalled s"
    using that by (simp add: RemoveAllHooks_idle InstallMutexHook_flag InstallFileHook_flag)
  from installed gated show ?thesis
    by blast
qed

theorem install_remove_roundtrip_witness:
  "fst (InstallAllHooks host_ok) \<and>
   read_bytes (mem (RemoveAllHooks (snd (InstallAllHooks host_ok)))) CLIENT_ISALREADYRUNNING_ADDR 16 =
     [0x55, 0x8B, 0xEC, 0xA3, 0xA4, 0xA5, 0xA6, 0xA7, 0xA8, 0xA9, 0xAA, 0xAB, 0xAC, 0xAD, 0xAE, 0xAF] \<and>
   read_bytes (mem (RemoveAllHooks (snd (InstallAllHooks host_ok))))
       CLBLOCKALLOCATOR_OPENDATAFILE_ADDR 32 =
     read_bytes (mem host_ok) CLBLOCKALLOCATOR_OPENDATAFILE_ADDR 32 \<and>
   RemoveAllHooks (RemoveAllHooks (snd (InstallAllHooks host_ok))) =
     RemoveAllHooks (snd (InstallAllHooks host_ok)) \<and>
   \<not> bad_free (RemoveAllHooks (RemoveAllHooks (snd (InstallAllHooks host_ok)))) \<and>
   \<not> g_hooksInstalled host_ok \<and>
   RemoveAllHooks (snd (InstallMutexHook host_ok)) = snd (InstallMutexHook host_ok) \<and>
   RemoveAllHooks (snd (InstallFileHook host_ok)) = snd (InstallFileHook host_ok)"
proof -
  note inst = install_remove_roundtrip [of host_ok]
  have ok: "fst (InstallAllHooks host_ok)"
    using host_ok_installs by simp
  have fresh: "\<not> g_hooksInstalled host_ok"
    using host_ok_env by simp
  from inst ok have r: "read_bytes (mem (RemoveAllHooks (snd (InstallAllHooks host_ok))))
        CLIENT_ISALREADYRUNNING_ADDR 16 = g_mutexOriginalBytes (snd (InstallAllHooks host_ok)) \<and>
      read_bytes (mem (RemoveAllHooks (snd (InstallAllHooks host_ok))))
        CLBLOCKALLOCATOR_OPENDATAFILE_ADDR 32 = g_fileOriginalBytes (snd (InstallAllHooks host_ok)) \<and>
      g_mutexOriginalBytes (snd (InstallAllHooks host_ok)) =
        read_bytes (mem host_ok) CLIENT_ISALREADYRUNNING_ADDR 16 \<and>
      g_fileOriginalBytes (snd (InstallAllHooks host_ok)) =
        read_bytes (mem host_ok) CLBLOCKALLOCATOR_OPENDATAFILE_ADDR 32"
    by blast
  from inst ok have again: "RemoveAllHooks (RemoveAllHooks (snd (InstallAllHooks host_ok))) =
      RemoveAllHooks (snd (InstallAllHooks host_ok))"
    by blast
  from inst ok have "bad_free (RemoveAllHooks (RemoveAllHooks (snd (InstallAllHooks host_ok)))) =
      bad_free host_ok"
    by blast
  then have nobad: "\<not> bad_free (RemoveAllHooks (RemoveAllHooks (snd (InstallAllHooks host_ok))))"
    using host_ok_env by simp
  from inst fresh
  have gated: "RemoveAllHooks (snd (InstallMutexHook host_ok)) = snd (InstallMutexHook host_ok) \<and>
      RemoveAllHooks (snd (InstallFileHook host_ok)) = snd (InstallFileHook host_ok)"
    by blast
  from r host_mem_mutex_window
  have windows: "read_bytes (mem (RemoveAllHooks (snd (InstallAllHooks host_ok))))
        CLIENT_ISALREADYRUNNING_ADDR 16 =
      [0x55, 0x8B, 0xEC, 0xA3, 0xA4, 0xA5, 0xA6, 0xA7, 0xA8, 0xA9, 0xAA, 0xAB, 0xAC, 0xAD, 0xAE, 0xAF] \<and>
      read_bytes (mem (RemoveAllHooks (snd (InstallAllHooks host_ok))))
        CLBLOCKALLOCATOR_OPENDATAFILE_ADDR 32 =
      read_bytes (mem host_ok) CLBLOCKALLOCATOR_OPENDATAFILE_ADDR 32"
    by (simp add: host_ok_env)
  from ok windows again nobad fresh gated show ?thesis
    by blast
qed

text \<open>
  C2 as stated fails: in the sample host that grants everything, the mutex
  patch is applied and then reverted, and the revert is a no-op: the window
  does not read as it did before the apply.
\<close>

theorem mutex_alone_not_reverted:
  "fst (InstallMutexHook host_ok) \<and>
   RemoveAllHooks (snd (InstallMutexHook host_ok)) = snd (InstallMutexHook host_ok) \<and>
   read_bytes (mem (RemoveAllHooks (snd (InstallMutexHook host_ok))))
       CLIENT_ISALREADYRUNNING_ADDR 16 =
     [0x31, 0xC0, 0xC3, 0xA3, 0xA4, 0xA5, 0xA6, 0xA7, 0xA8, 0xA9, 0xAA, 0xAB, 0xAC, 0xAD, 0xAE, 0xAF] \<and>
   read_bytes (mem (RemoveAllHooks (snd (InstallMutexHook host_ok))))
       CLIENT_ISALREADYRUNNING_ADDR 16 \<noteq>
     read_bytes (mem host_ok) CLIENT_ISALREADYRUNNING_ADDR 16 \<and>
   read_bytes (mem (RemoveAllHooks (snd (InstallMutexHook host_ok))))
       CLIENT_ISALREADYRUNNING_ADDR 16 \<noteq>
     g_mutexOriginalBytes (snd (InstallMutexHook host_ok))"
proof -
  have ok: "fst (InstallMutexHook host_ok)"
    using host_ok_installs by simp
  have "\<not> g_hooksInstalled (snd (InstallMutexHook host_ok))"
    using host_ok_env by (simp add: InstallMutexHook_flag)
  then have idle: "RemoveAllHooks (snd (InstallMutexHook host_ok)) =
      snd (InstallMutexHook host_ok)"
    by (rule RemoveAllHooks_idle)
  from ok host_mem_mutex_window show ?thesis
    by (simp add: idle InstallMutexHook_window [OF ok] InstallMutexHook_snapshot [OF ok]
        host_ok_env)
qed

section \<open>A failed second patch\<close>

text \<open>
  C1, as the code has it: when, starting from an uninstalled registry, the
  second patch (\<open>InstallFileHook\<close>) fails after the first (\<open>InstallMutexHook\<close>)
  was applied, \<open>InstallAllHooks\<close> reports failure, \<open>g_hooksInstalled\<close> stays
  \<open>FALSE\<close>, the first patch's three bytes remain in target memory and its
  snapshot is retained in \<open>g_mutexOriginalBytes\<close>. An immediately following
  \<open>RemoveAllHooks\<close> is gated on the flag and is a no-op: it leaves the first
  patch in place.
\<close>

theorem partial_install_stays:
  assumes "\<not> g_hooksInstalled s" and "fst (InstallMutexHook s)"
    and "\<not> fst (InstallFileHook (snd (InstallMutexHook s)))"
  shows "\<not> fst (InstallAllHooks s) \<and>
         \<not> g_hooksInstalled (snd (InstallAllHooks s)) \<and>
         read_bytes (mem (snd (InstallAllHooks s))) CLIENT_ISALREADYRUNNING_ADDR 16 =
           [0x31, 0xC0, 0xC3] @ drop 3 (read_bytes (mem s) CLIENT_ISALREADYRUNNING_ADDR 16) \<and>
         g_mutexOriginalBytes (snd (InstallAllHooks s)) =
           read_bytes (mem s) CLIENT_ISALREADYRUNNING_ADDR 16 \<and>
         RemoveAllHooks (snd (InstallAllHooks s)) = snd (InstallAllHooks s)"
proof -
  from assms(2,3) have fails: "\<not> fst (InstallAllHooks s)"
    by (simp add: InstallAllHooks_succeeds)
  with assms(1) have flag: "\<not> g_hooksInstalled (snd (InstallAllHooks s))"
    by (simp add: failed_install_flag)
  from assms(2,3) have st: "snd (InstallAllHooks s) = snd (InstallFileHook (snd (InstallMutexHook s)))"
    by (simp add: InstallAllHooks_state)
  from fails flag show ?thesis
    using InstallFileHook_failed [OF assms(3)] InstallMutexHook_window [OF assms(2)]
      InstallMutexHook_snapshot [OF assms(2)]
    by (simp add: st RemoveAllHooks_idle)
qed

theorem partial_install_stays_witness:
  "\<not> g_hooksInstalled host_denied \<and> fst (InstallMutexHook host_denied) \<and>
   \<not> fst (InstallFileHook (snd (InstallMutexHook host_denied))) \<and>
   \<not> fst (InstallAllHooks host_denied) \<and>
   \<not> g_hooksInstalled (snd (InstallAllHooks host_denied)) \<and>
   read_bytes (mem (snd (InstallAllHooks host_denied))) CLIENT_ISALREADYRUNNING_ADDR 16 =
     [0x31, 0xC0, 0xC3, 0xA3, 0xA4, 0xA5, 0xA6, 0xA7, 0xA8, 0xA9, 0xAA, 0xAB, 0xAC, 0xAD, 0xAE, 0xAF] \<and>
   g_mutexOriginalBytes (snd (InstallAllHooks host_denied)) =
     [0x55, 0x8B, 0xEC, 0xA3, 0xA4, 0xA5, 0xA6, 0xA7, 0xA8, 0xA9, 0xAA, 0xAB, 0xAC, 0xAD, 0xAE, 0xAF] \<and>
   RemoveAllHooks (snd (InstallAllHooks host_denied)) = snd (InstallAllHooks host_denied)"
proof -
  have a: "\<not> g_hooksInstalled host_denied"
    using host_denied_fresh by simp
  have b: "fst (InstallMutexHook host_denied)"
    and c: "\<not> fst (InstallFileHook (snd (InstallMutexHook host_denied)))"
    using host_denied_partial by simp_all
  from partial_install_stays [OF a b c] a b c host_mem_mutex_window show ?thesis
    by (simp add: host_denied_partial)
qed

text \<open>
  C1 as stated fails: in the sample host that refuses the protection change
  on the second target, the bytes of the first window after
  \<open>InstallAllHooks\<close> and \<open>RemoveAllHooks\<close> are not the original ones.
\<close>

theorem partial_install_not_reverted:
  "\<not> g_hooksInstalled host_denied \<and> fst (InstallMutexHook host_denied) \<and>
   \<not> fst (InstallFileHook (snd (InstallMutexHook host_denied))) \<and>
   read_bytes (mem (RemoveAllHooks (snd (InstallAllHooks host_denied))))
       CLIENT_ISALREADYRUNNING_ADDR 16 \<noteq>
     read_bytes (mem host_denied) CLIENT_ISALREADYRUNNING_ADDR 16"
proof -
  have a: "\<not> g_hooksInstalled host_denied"
    using host_denied_fresh by simp
  have b: "fst (InstallMutexHook host_denied)"
    and c: "\<not> fst (InstallFileHook (snd (InstallMutexHook host_denied)))"
    using host_denied_partial by simp_all
  from b c have st: "snd (InstallAllHooks host_denied) =
      snd (InstallFileHook (snd (InstallMutexHook host_denied)))"
    by (simp add: InstallAllHooks_state)
  from a b c have "\<not> g_hooksInstalled (snd (InstallAllHooks host_denied))"
    by (simp add: failed_install_flag InstallAllHooks_succeeds)
  then have "RemoveAllHooks (snd (InstallAllHooks host_denied)) = snd (InstallAllHooks host_denied)"
    by (rule RemoveAllHooks_idle)
  then have "read_bytes (mem (RemoveAllHooks (snd (InstallAllHooks host_denied))))
       CLIENT_ISALREADYRUNNING_ADDR 16 =
     [0x31, 0xC0, 0xC3] @ drop 3 (read_bytes (mem host_denied) CLIENT_ISALREADYRUNNING_ADDR 16)"
    using InstallFileHook_failed [OF c] InstallMutexHook_window [OF b] by (simp add: st)
  with a b c host_mem_mutex_window show ?thesis
    by (simp add: host_denied_partial)
qed

section \<open>The order of the reverts\<close>

text \<open>
  C3, as the code has it: when the registry is not in the Uninstalled state,
  \<open>RemoveAllHooks\<close> reverts the patches in the order of their installation,
  the mutex hook before the file hook (a target whose protection change is
  refused is skipped), each revert storing the saved bytes, so that with both
  changes granted both windows hold their snapshots again; it frees the
  trampoline stub, resets \<open>g_fileHookTrampoline\<close> to \<open>NULL\<close>, and sets the
  install state to Uninstalled.
\<close>

theorem RemoveAllHooks_installation_order:
  assumes "g_hooksInstalled s"
  shows "drop (length (writes s)) (writes (RemoveAllHooks s)) =
           (if vp_ok s CLIENT_ISALREADYRUNNING_ADDR 16
            then [(CLIENT_ISALREADYRUNNING_ADDR, take 16 (g_mutexOriginalBytes s))] else []) @
           (if vp_ok s CLBLOCKALLOCATOR_OPENDATAFILE_ADDR 32
            then [(CLBLOCKALLOCATOR_OPENDATAFILE_ADDR, take 32 (g_fileOriginalBytes s))] else []) \<and>
         revert_order s =
           (if vp_ok s CLIENT_ISALREADYRUNNING_ADDR 16 then [CLIENT_ISALREADYRUNNING_ADDR] else []) @
           (if vp_ok s CLBLOCKALLOCATOR_OPENDATAFILE_ADDR 32
            then [CLBLOCKALLOCATOR_OPENDATAFILE_ADDR] else []) \<and>
         (vp_ok s CLIENT_ISALREADYRUNNING_ADDR 16 \<and>
          vp_ok s CLBLOCKALLOCATOR_OPENDATAFILE_ADDR 32 \<and>
          length (g_mutexOriginalBytes s) = 16 \<and> length (g_fileOriginalBytes s) = 32 \<longrightarrow>
            read_bytes (mem (RemoveAllHooks s)) CLIENT_ISALREADYRUNNING_ADDR 16 =
              g_mutexOriginalBytes s \<and>
            read_bytes (mem (RemoveAllHooks s)) CLBLOCKALLOCATOR_OPENDATAFILE_ADDR 32 =
              g_fileOriginalBytes s) \<and>
         g_fileHookTrampoline (RemoveAllHooks s) = 0 \<and>
         (g_fileHookTrampoline s \<noteq> 0 \<longrightarrow>
            live (RemoveAllHooks s) = live s - {g_fileHookTrampoline s}) \<and>
         \<not> g_hooksInstalled (RemoveAllHooks s)"
  using assms RemoveAllHooks_release [OF assms] RemoveAllHooks_windows [OF assms]
  by (simp add: RemoveAllHooks_writes revert_order_eq)

theorem RemoveAllHooks_installation_order_witness:
  "g_hooksInstalled (snd (InstallAllHooks host_ok)) \<and>
   vp_ok (snd (InstallAllHooks host_ok)) CLIENT_ISALREADYRUNNING_ADDR 16 \<and>
   vp_ok (snd (InstallAllHooks host_ok)) CLBLOCKALLOCATOR_OPENDATAFILE_ADDR 32 \<and>
   length (g_mutexOriginalBytes (snd (InstallAllHooks host_ok))) = 16 \<and>
   length (g_fileOriginalBytes (snd (InstallAllHooks host_ok))) = 32 \<and>
   g_fileHookTrampoline (snd (InstallAllHooks host_ok)) \<noteq> 0 \<and>
   revert_order (snd (InstallAllHooks host_ok)) =
     [CLIENT_ISALREADYRUNNING_ADDR, CLBLOCKALLOCATOR_OPENDATAFILE_ADDR] \<and>
   read_bytes (mem (RemoveAllHooks (snd (InstallAllHooks host_ok)))) CLIENT_ISALREADYRUNNING_ADDR 16 =
     g_mutexOriginalBytes (snd (InstallAllHooks host_ok)) \<and>
   read_bytes (mem (RemoveAllHooks (snd (InstallAllHooks host_ok))))
       CLBLOCKALLOCATOR_OPENDATAFILE_ADDR 32 =
     g_fileOriginalBytes (snd (InstallAllHooks host_ok)) \<and>
   g_fileHookTrampoline (RemoveAllHooks (snd (InstallAllHooks host_ok))) = 0 \<and>
   live (RemoveAllHooks (snd (InstallAllHooks host_ok))) = {} \<and>
   \<not> g_hooksInstalled (RemoveAllHooks (snd (InstallAllHooks host_ok)))"
proof -
  have inst: "g_hooksInstalled (snd (InstallAllHooks host_ok))"
    using host_ok_installed by simp
  have len: "length (g_mutexOriginalBytes (snd (InstallAllHooks host_ok))) = 16 \<and>
      length (g_fileOriginalBytes (snd (InstallAllHooks host_ok))) = 32"
    using host_ok_installs InstallAllHooks_globals [of host_ok] by (simp add: length_read_bytes)
  from RemoveAllHooks_installation_order [OF inst] host_ok_installed len show ?thesis
    by simp
qed

text \<open>
  C3 as stated fails: after a successful install in the sample host, the
  reverts are stored to the mutex target first and to the file target second,
  which is not the reverse of the installation order.
\<close>

theorem RemoveAllHooks_not_reverse_order:
  "g_hooksInstalled (snd (InstallAllHooks host_ok)) \<and>
   revert_order (snd (InstallAllHooks host_ok)) =
     [CLIENT_ISALREADYRUNNING_ADDR, CLBLOCKALLOCATOR_OPENDATAFILE_ADDR] \<and>
   revert_order (snd (InstallAllHooks host_ok)) \<noteq>
     [CLBLOCKALLOCATOR_OPENDATAFILE_ADDR, CLIENT_ISALREADYRUNNING_ADDR]"
  using host_ok_installed targets_differ by (simp add: revert_order_eq)

section \<open>The trampoline\<close>

text \<open>
  C5: after a successful \<open>InstallFileHook\<close> the trampoline block \<open>t\<close> (which
  \<open>g_originalOpenDataFile\<close> now points to) holds the first 5 bytes of the
  original function as they were before the call, followed by the opcode
  \<open>0xE9\<close> and the offset of a jump whose destination is the original address
  plus 5 (the block being clear of the 5 target bytes). The stores of the call
  are, in this order: the prefix to \<open>t\<close>, the opcode to \<open>t + 5\<close>, the offset to
  \<open>t + 6\<close>, and only then the diverting jump to the target; so the trampoline
  is fully populated before the target is overwritten, and the prefix copied
  is the intact original code.
\<close>

theorem trampoline_layout:
  assumes "fst (InstallFileHook s)"
  shows "let h = CLBLOCKALLOCATOR_OPENDATAFILE_ADDR;
             s' = snd (InstallFileHook s);
             t = g_fileHookTrampoline s'
         in t \<noteq> 0 \<and> g_originalOpenDataFile s' = t \<and>
            drop (length (writes s)) (writes s') =
              [(t, read_bytes (mem s) h 5), (t + 5, [0xE9]),
               (t + 6, dword_bytes (jumpOffset h (t + 5))),
               (h, 0xE9 # dword_bytes (hookOffset (hook_fn s) h))] \<and>
            (t + 5) + 5 + jumpOffset h (t + 5) = h + 5 \<and>
            read_bytes (mem s') h 5 = 0xE9 # dword_bytes (hookOffset (hook_fn s) h) \<and>
            (5 \<le> unat (t - h) \<and> 10 \<le> unat (h - t) \<longrightarrow>
               read_bytes (mem s') t 10 =
                 read_bytes (mem s) h 5 @ 0xE9 # dword_bytes (jumpOffset h (t + 5)))"
proof -
  let ?h = CLBLOCKALLOCATOR_OPENDATAFILE_ADDR
  let ?t = "hd (valloc s)"
  let ?jump = "0xE9 # dword_bytes (hookOffset (hook_fn s) ?h)"
  let ?block = "write_bytes (?t + 6) (dword_bytes (jumpOffset ?h (?t + 5)))
                  (write_bytes (?t + 5) [0xE9] (write_bytes ?t (read_bytes (mem s) ?h 5) (mem s)))"
  note st = InstallFileHook_success_state [OF assms]
  from st have t: "g_fileHookTrampoline (snd (InstallFileHook s)) = ?t"
    and t0: "?t \<noteq> 0"
    and o: "g_originalOpenDataFile (snd (InstallFileHook s)) = ?t"
    and w: "writes (snd (InstallFileHook s)) = writes s @
             [(?t, read_bytes (mem s) ?h 5), (?t + 5, [0xE9]),
              (?t + 6, dword_bytes (jumpOffset ?h (?t + 5))), (?h, ?jump)]"
    and m: "mem (snd (InstallFileHook s)) = write_bytes ?h ?jump ?block"
    by (simp_all add: Let_def)
  have len: "length ?jump = 5"
    by (simp add: length_dword_bytes)
  have target: "read_bytes (write_bytes ?h ?jump ?block) ?h 5 = ?jump"
    using len by (simp add: read_write_same)
  have block: "read_bytes (write_bytes ?h ?jump ?block) ?t 10 =
      read_bytes (mem s) ?h 5 @ 0xE9 # dword_bytes (jumpOffset ?h (?t + 5))"
    if far: "5 \<le> unat (?t - ?h)" "10 \<le> unat (?h - ?t)"
  proof -
    have "read_bytes (write_bytes ?h ?jump ?block) ?t 10 = read_bytes ?block ?t 10"
      by (rule read_write_other) (use far len far_apart [of 5 ?t ?h 10] in simp)
    then show ?thesis
      by (simp only: trampoline_block)
  qed
  show ?thesis
    unfolding Let_def t o w m using t0 target block by (simp add: jumpOffset_def)
qed

theorem trampoline_layout_witness:
  "fst (InstallFileHook host_ok) \<and>
   g_fileHookTrampoline (snd (InstallFileHook host_ok)) = 0x02000000 \<and>
   g_originalOpenDataFile (snd (InstallFileHook host_ok)) = 0x02000000 \<and>
   5 \<le> unat (0x02000000 - CLBLOCKALLOCATOR_OPENDATAFILE_ADDR) \<and>
   10 \<le> unat (CLBLOCKALLOCATOR_OPENDATAFILE_ADDR - 0x02000000) \<and>
   map fst (writes (snd (InstallFileHook host_ok))) =
     [0x02000000, 0x02000005, 0x02000006, CLBLOCKALLOCATOR_OPENDATAFILE_ADDR] \<and>
   read_bytes (mem (snd (InstallFileHook host_ok))) 0x02000000 10 =
     [0x20, 0x21, 0x22, 0x23, 0x24, 0xE9, 0x1B, 0x59, 0x67, 0xFE] \<and>
   read_bytes (mem (snd (InstallFileHook host_ok))) CLBLOCKALLOCATOR_OPENDATAFILE_ADDR 5 =
     [0xE9, 0xDB, 0xA6, 0xAA, 0xFF]"
proof -
  have ok: "fst (InstallFileHook host_ok)"
    and t: "g_fileHookTrampoline (snd (InstallFileHook host_ok)) = 0x02000000"
    using host_ok_file_hook by simp_all
  have far: "5 \<le> unat (0x02000000 - CLBLOCKALLOCATOR_OPENDATAFILE_ADDR)"
    "10 \<le> unat (CLBLOCKALLOCATOR_OPENDATAFILE_ADDR - 0x02000000)"
    by (simp_all add: CLBLOCKALLOCATOR_OPENDATAFILE_ADDR_def)
  from trampoline_layout [OF ok] ok far host_mem_file_prologue host_ok_offsets show ?thesis
    by (simp add: t Let_def host_ok_env)
qed

section \<open>Relative offsets\<close>

text \<open>
  C4: for every address \<open>A\<close> of a 5-byte jump and every destination, the
  offset computed satisfies \<open>A + 5 + offset = destination\<close> in 32-bit
  arithmetic (so also for destinations below \<open>A\<close>), and still does after the
  offset went through its four bytes in memory. Both offsets of
  \<open>InstallFileHook\<close>, the one of the jump to the replacement at the target and
  the one of the trampoline's jump back, are instances of the specification's
  formula \<open>destination - (jump address + jump length)\<close>, each computed with its
  own jump address; these are the offsets a successful \<open>InstallFileHook\<close>
  stores.
\<close>

theorem jump_offsets_correct:
  "A + 5 + hookOffset dest A = dest \<and>
   hookOffset dest A = spec_relative_offset dest A 5 \<and>
   tj + 5 + jumpOffset A tj = A + 5 \<and>
   jumpOffset A tj = spec_relative_offset (A + 5) tj 5 \<and>
   A + 5 + bytes_dword (dword_bytes (hookOffset dest A)) = dest \<and>
   tj + 5 + bytes_dword (dword_bytes (jumpOffset A tj)) = A + 5 \<and>
   (fst (InstallFileHook s) \<longrightarrow>
      (let h = CLBLOCKALLOCATOR_OPENDATAFILE_ADDR;
           t = g_fileHookTrampoline (snd (InstallFileHook s));
           stores = drop (length (writes s)) (writes (snd (InstallFileHook s)))
       in stores ! 3 = (h, 0xE9 # dword_bytes (spec_relative_offset (hook_fn s) h 5)) \<and>
          stores ! 1 = (t + 5, [0xE9]) \<and>
          stores ! 2 = (t + 5 + 1, dword_bytes (spec_relative_offset (h + 5) (t + 5) 5))))"
proof -
  have "let h = CLBLOCKALLOCATOR_OPENDATAFILE_ADDR;
            t = g_fileHookTrampoline (snd (InstallFileHook s));
            stores = drop (length (writes s)) (writes (snd (InstallFileHook s)))
        in stores ! 3 = (h, 0xE9 # dword_bytes (spec_relative_offset (hook_fn s) h 5)) \<and>
           stores ! 1 = (t + 5, [0xE9]) \<and>
           stores ! 2 = (t + 5 + 1, dword_bytes (spec_relative_offset (h + 5) (t + 5) 5))"
    if ok: "fst (InstallFileHook s)"
    using InstallFileHook_success_state [OF ok]
    by (simp add: Let_def spec_relative_offset_def jumpOffset_def hookOffset_def)
  then show ?thesis
    by (simp add: hookOffset_def jumpOffset_def spec_relative_offset_def bytes_dword_dword_bytes)
qed

theorem jump_offsets_correct_witness:
  "hookOffset 0x00120000 CLBLOCKALLOCATOR_OPENDATAFILE_ADDR = 0xFFAAA6DB \<and>
   sint (hookOffset 0x00120000 CLBLOCKALLOCATOR_OPENDATAFILE_ADDR) = - 5593381 \<and>
   CLBLOCKALLOCATOR_OPENDATAFILE_ADDR + 5 + hookOffset 0x00120000 CLBLOCKALLOCATOR_OPENDATAFILE_ADDR =
     0x00120000 \<and>
   fst (InstallFileHook host_ok) \<and>
   writes (snd (InstallFileHook host_ok)) ! 3 =
     (CLBLOCKALLOCATOR_OPENDATAFILE_ADDR, [0xE9, 0xDB, 0xA6, 0xAA, 0xFF]) \<and>
   writes (snd (InstallFileHook host_ok)) ! 2 = (0x02000006, [0x1B, 0x59, 0x67, 0xFE])"
proof -
  note inst = jump_offsets_correct [where A = CLBLOCKALLOCATOR_OPENDATAFILE_ADDR
      and dest = "0x00120000" and tj = "0x02000005" and s = host_ok]
  have ok: "fst (InstallFileHook host_ok)"
    and t: "g_fileHookTrampoline (snd (InstallFileHook host_ok)) = 0x02000000"
    using host_ok_file_hook by simp_all
  have v: "hookOffset 0x00120000 CLBLOCKALLOCATOR_OPENDATAFILE_ADDR = 0xFFAAA6DB"
    by (simp add: hookOffset_def CLBLOCKALLOCATOR_OPENDATAFILE_ADDR_def)
  have sg: "sint (hookOffset 0x00120000 CLBLOCKALLOCATOR_OPENDATAFILE_ADDR) = - 5593381"
    by (simp add: v)
  from inst have e: "CLBLOCKALLOCATOR_OPENDATAFILE_ADDR + 5 +
      hookOffset 0x00120000 CLBLOCKALLOCATOR_OPENDATAFILE_ADDR = 0x00120000"
    by blast
  from inst ok host_ok_offsets
  have w: "writes (snd (InstallFileHook host_ok)) ! 3 =
             (CLBLOCKALLOCATOR_OPENDATAFILE_ADDR, [0xE9, 0xDB, 0xA6, 0xAA, 0xFF]) \<and>
           writes (snd (InstallFileHook host_ok)) ! 2 = (0x02000006, [0x1B, 0x59, 0x67, 0xFE])"
    by (simp add: t Let_def host_ok_env spec_relative_offset_def jumpOffset_def hookOffset_def)
  from v sg e ok w show ?thesis
    by blast
qed

end
